theory Spec2Isabelle
  imports Main "HOL-Library.Sublist"
begin

section \<open>Text\<close>

text \<open>
  Python \<open>str\<close> values are modelled as \<open>string\<close>, the characters of a text being its
  UTF-8 code units. The pictographs of the log entries are therefore short sequences of
  code units, and every character outside ASCII is a run of code units above \<open>0x7F\<close>.

  \<open>lower\<close> is modelled on the ASCII letters. Python's \<open>lower\<close> gives an ASCII letter
  for two characters outside ASCII only: \<open>k\<close> for the Kelvin sign, and \<open>i\<close> followed
  by a combining dot for the dotted capital I. No text the program searches for
  contains \<open>k\<close>, and in none is \<open>i\<close> followed by a combining dot, so a search in the
  ASCII-lowered code units succeeds exactly when the search of the source does.
\<close>

definition NL :: string where
  "NL = [CHR 0x0A]"

definition lower_char :: "char \<Rightarrow> char" where
  \<comment> \<open>the letters \<open>A\<close> to \<open>Z\<close> become \<open>a\<close> to \<open>z\<close>; every other code unit stays\<close>
  "lower_char c =
     (case map_of (zip ''ABCDEFGHIJKLMNOPQRSTUVWXYZ'' ''abcdefghijklmnopqrstuvwxyz'') c of
        None \<Rightarrow> c
      | Some l \<Rightarrow> l)"

definition py_lower :: "string \<Rightarrow> string" where
  \<comment> \<open>\<open>s.lower()\<close>\<close>
  "py_lower s = map lower_char s"

fun py_in :: "string \<Rightarrow> string \<Rightarrow> bool" where
  \<comment> \<open>\<open>sub in s\<close>\<close>
  "py_in sub [] = (sub = [])"
| "py_in sub (c # cs) = (prefix sub (c # cs) \<or> py_in sub cs)"

function py_replace :: "string \<Rightarrow> string \<Rightarrow> string \<Rightarrow> string" where
  \<comment> \<open>\<open>s.replace(old, new)\<close>: every occurrence, left to right, without overlap\<close>
  "py_replace old new s =
     (if old = [] then new @ concat (map (\<lambda>c. c # new) s)
      else if s = [] then []
      else if prefix old s then new @ py_replace old new (drop (length old) s)
      else hd s # py_replace old new (tl s))"
  by pat_completeness auto
termination
  by (relation "measure (\<lambda>(old, new, s). length s)") (auto simp: Suc_le_eq)

declare py_replace.simps [simp del]

fun py_split :: "char \<Rightarrow> string \<Rightarrow> string list" where
  \<comment> \<open>\<open>s.split(sep)\<close> for a separator of one character\<close>
  "py_split sep [] = [[]]"
| "py_split sep (c # cs) =
     (if c = sep then [] # py_split sep cs
      else (case py_split sep cs of
              [] \<Rightarrow> [[c]]
            | p # ps \<Rightarrow> (c # p) # ps))"

definition space_units :: "string list" where
  \<comment> \<open>the characters for which \<open>str.isspace\<close> holds, each as its UTF-8 code units:
      U+0009 to U+000D, U+001C to U+0020, U+0085, U+00A0, U+1680, U+2000 to U+200A,
      U+2028, U+2029, U+202F, U+205F, U+3000\<close>
  "space_units =
     [[CHR 0x09], [CHR 0x0A], [CHR 0x0B], [CHR 0x0C], [CHR 0x0D],
      [CHR 0x1C], [CHR 0x1D], [CHR 0x1E], [CHR 0x1F], [CHR 0x20],
      [CHR 0xC2, CHR 0x85],
      [CHR 0xC2, CHR 0xA0],
      [CHR 0xE1, CHR 0x9A, CHR 0x80],
      [CHR 0xE2, CHR 0x80, CHR 0x80],
      [CHR 0xE2, CHR 0x80, CHR 0x81],
      [CHR 0xE2, CHR 0x80, CHR 0x82],
      [CHR 0xE2, CHR 0x80, CHR 0x83],
      [CHR 0xE2, CHR 0x80, CHR 0x84],
      [CHR 0xE2, CHR 0x80, CHR 0x85],
      [CHR 0xE2, CHR 0x80, CHR 0x86],
      [CHR 0xE2, CHR 0x80, CHR 0x87],
      [CHR 0xE2, CHR 0x80, CHR 0x88],
      [CHR 0xE2, CHR 0x80, CHR 0x89],
      [CHR 0xE2, CHR 0x80, CHR 0x8A],
      [CHR 0xE2, CHR 0x80, CHR 0xA8],
      [CHR 0xE2, CHR 0x80, CHR 0xA9],
      [CHR 0xE2, CHR 0x80, CHR 0xAF],
      [CHR 0xE2, CHR 0x81, CHR 0x9F],
      [CHR 0xE3, CHR 0x80, CHR 0x80]]"

function strip_units :: "string list \<Rightarrow> string \<Rightarrow> string" where
  \<comment> \<open>drops from the front of the text every leading occurrence of one of the units\<close>
  "strip_units units s =
     (case List.find (\<lambda>u. u \<noteq> [] \<and> prefix u s) units of
        None \<Rightarrow> s
      | Some u \<Rightarrow> strip_units units (drop (length u) s))"
  by pat_completeness auto
termination
proof (relation "measure (\<lambda>(units, s). length s)")
  show "wf (measure (\<lambda>(units, s). length s))"
    by simp
next
  fix units :: "string list" and s u :: string
  assume "List.find (\<lambda>u. u \<noteq> [] \<and> prefix u s) units = Some u"
  then have "u \<noteq> []" and "prefix u s"
    by (auto simp: find_Some_iff)
  then have "length (drop (length u) s) < length s"
    by (auto simp: prefix_def)
  then show "((units, drop (length u) s), (units, s)) \<in> measure (\<lambda>(units, s). length s)"
    by simp
qed

declare strip_units.simps [simp del]

definition py_strip :: "string \<Rightarrow> string" where
  \<comment> \<open>\<open>s.strip()\<close>: white space off the front, then off the back (the text reversed,
      against the reversed units)\<close>
  "py_strip s =
     rev (strip_units (map rev space_units) (rev (strip_units space_units s)))"

definition CHECK :: string where
  "CHECK = [CHR 0xE2, CHR 0x9C, CHR 0x85]"

definition CROSS :: string where
  "CROSS = [CHR 0xE2, CHR 0x9D, CHR 0x8C]"

definition WARN :: string where
  "WARN = [CHR 0xE2, CHR 0x9A, CHR 0xA0, CHR 0xEF, CHR 0xB8, CHR 0x8F]"

definition INFO :: string where
  "INFO = [CHR 0xE2, CHR 0x84, CHR 0xB9, CHR 0xEF, CHR 0xB8, CHR 0x8F]"

definition CYCLE :: string where
  "CYCLE = [CHR 0xF0, CHR 0x9F, CHR 0x94, CHR 0x84]"

definition PARTY :: string where
  "PARTY = [CHR 0xF0, CHR 0x9F, CHR 0x8E, CHR 0x89]"

definition GLOBE :: string where
  "GLOBE = [CHR 0xF0, CHR 0x9F, CHR 0x8C, CHR 0x90]"

definition BULB :: string where
  "BULB = [CHR 0xF0, CHR 0x9F, CHR 0x92, CHR 0xA1]"

section \<open>The world outside the program\<close>

text \<open>
  Exceptions are values. The four constructors are the four classes the handlers of the
  source tell apart; each carries the text of \<open>str(e)\<close>, and \<open>CalledProcessError\<close>
  also the captured \<open>e.stderr\<close>.
\<close>

datatype exn =
    CalledProcessError string string
  | TimeoutExpired string
  | FileNotFoundError string
  | OtherException string

fun str_exn :: "exn \<Rightarrow> string" where
  "str_exn (CalledProcessError m err) = m"
| "str_exn (TimeoutExpired m) = m"
| "str_exn (FileNotFoundError m) = m"
| "str_exn (OtherException m) = m"

record completed_process =
  returncode :: int
  stdout :: string
  stderr :: string

text \<open>
  What the file system and the child processes answer is not decided by the program: it
  is the environment, one answer for each place of the source that asks.

  Creating the directory answers \<open>None\<close> or the text of the \<open>OSError\<close> raised. Writing
  a file answers \<open>Written\<close>, or that \<open>open\<close> failed (the file is as it was), or that
  writing or closing failed after \<open>open\<close> had created or truncated the file, with the
  number of characters that reached it. No handler that can catch an \<open>OSError\<close> of a
  file operation tells its classes apart, so it is raised as \<open>OtherException\<close>.

  \<open>subprocess.run\<close> answers the completed process or the exception raised while
  launching or waiting (the timeout). The generated code runs in the working directory
  and may create, overwrite or remove any file: \<open>generated_effect\<close> and \<open>code_effect\<close>
  are what the two runs of it do to the files, whatever they answer. The git commands
  are taken to leave the files of the working tree as they are.
  \<open>cpe_text\<close> is the text Python gives a \<open>CalledProcessError\<close> for a command and its
  exit status.
\<close>

datatype write_answer =
    Written
  | OpenFailed string
  | WriteFailed string nat

fun failure :: "write_answer \<Rightarrow> string option" where
  \<comment> \<open>the text of the exception, if the write raised one\<close>
  "failure Written = None"
| "failure (OpenFailed m) = Some m"
| "failure (WriteFailed m n) = Some m"

type_synonym file_system = "string \<rightharpoonup> string"

record env =
  save_generated :: write_answer
  run_generated :: "exn + completed_process"
  generated_effect :: "file_system \<Rightarrow> file_system"
  mkdir_docs :: "string option"
  write_code_file :: write_answer
  run_code :: "exn + completed_process"
  code_effect :: "file_system \<Rightarrow> file_system"
  write_index :: write_answer
  write_readme :: write_answer
  git_rev_parse :: "exn + completed_process"
  git_init :: "exn + completed_process"
  git_remote_check :: "exn + completed_process"
  git_add :: "exn + completed_process"
  git_commit :: "exn + completed_process"
  git_push :: "exn + completed_process"
  git_remote_result :: "exn + completed_process"
  cpe_text :: "string list \<Rightarrow> int \<Rightarrow> string"

text \<open>
  Every operation on the outside world is recorded when it is attempted, in order. A
  write changes the file's content unless \<open>open\<close> failed, and a child process changes
  the files as its effect says.
\<close>

datatype event =
    Mkdir string
  | WriteFile string string
  | Run "string list"

record world =
  trace :: "event list"
  files :: file_system

record state = world +
  deployment_log :: "string list"

definition mkdir :: "string \<Rightarrow> string option \<Rightarrow> 'a world_scheme \<Rightarrow> (exn + unit) \<times> 'a world_scheme" where
  \<comment> \<open>\<open>Path(path).mkdir(exist_ok=True)\<close>\<close>
  "mkdir path answer w =
     (case answer of
        None \<Rightarrow> (Inr (), w\<lparr>trace := trace w @ [Mkdir path]\<rparr>)
      | Some m \<Rightarrow> (Inl (OtherException m), w\<lparr>trace := trace w @ [Mkdir path]\<rparr>))"

definition write_file ::
  "string \<Rightarrow> string \<Rightarrow> write_answer \<Rightarrow> 'a world_scheme \<Rightarrow> (exn + unit) \<times> 'a world_scheme" where
  \<comment> \<open>\<open>with open(path, 'w') as f: f.write(content)\<close>\<close>
  "write_file path content answer w =
     (case answer of
        Written \<Rightarrow>
          (Inr (), w\<lparr>trace := trace w @ [WriteFile path content],
                      files := (files w)(path \<mapsto> content)\<rparr>)
      | OpenFailed m \<Rightarrow>
          (Inl (OtherException m), w\<lparr>trace := trace w @ [WriteFile path content]\<rparr>)
      | WriteFailed m n \<Rightarrow>
          (Inl (OtherException m), w\<lparr>trace := trace w @ [WriteFile path content],
                                     files := (files w)(path \<mapsto> take n content)\<rparr>))"

definition subprocess_run ::
  "string list \<Rightarrow> (file_system \<Rightarrow> file_system) \<Rightarrow> exn + completed_process
     \<Rightarrow> 'a world_scheme \<Rightarrow> (exn + completed_process) \<times> 'a world_scheme" where
  \<comment> \<open>\<open>subprocess.run(args, capture_output=True, text=True, check=False)\<close>, with what
      the child does to the files\<close>
  "subprocess_run args effect answer w =
     (answer, w\<lparr>trace := trace w @ [Run args], files := effect (files w)\<rparr>)"

definition subprocess_run_checked ::
  "(string list \<Rightarrow> int \<Rightarrow> string) \<Rightarrow> string list \<Rightarrow> (file_system \<Rightarrow> file_system)
     \<Rightarrow> exn + completed_process
     \<Rightarrow> 'a world_scheme \<Rightarrow> (exn + completed_process) \<times> 'a world_scheme" where
  \<comment> \<open>\<open>subprocess.run(args, check=True)\<close>: a non-zero exit status is raised\<close>
  "subprocess_run_checked text args effect answer w =
     (case answer of
        Inl e \<Rightarrow> (Inl e, w\<lparr>trace := trace w @ [Run args], files := effect (files w)\<rparr>)
      | Inr p \<Rightarrow>
          if returncode p \<noteq> 0
          then (Inl (CalledProcessError (text args (returncode p)) (stderr p)),
                w\<lparr>trace := trace w @ [Run args], files := effect (files w)\<rparr>)
          else (Inr p, w\<lparr>trace := trace w @ [Run args], files := effect (files w)\<rparr>))"

section \<open>The Execute route\<close>

definition GENERATED_FILE :: string where
  "GENERATED_FILE = ''generated_code.py''"

definition GITHUB_PAGES_DIR :: string where
  "GITHUB_PAGES_DIR = ''docs''"

record body =
  code_field :: "string option"
  auto_push_field :: "bool option"

definition request_code :: "body option \<Rightarrow> string" where
  \<comment> \<open>\<open>data.get('code', '') if data else ''\<close>\<close>
  "request_code data =
     (case data of
        None \<Rightarrow> []
      | Some d \<Rightarrow> (case code_field d of None \<Rightarrow> [] | Some c \<Rightarrow> c))"

definition request_auto_push :: "body option \<Rightarrow> bool" where
  \<comment> \<open>\<open>data.get('auto_push', True) if data else True\<close>\<close>
  "request_auto_push data =
     (case data of
        None \<Rightarrow> True
      | Some d \<Rightarrow> (case auto_push_field d of None \<Rightarrow> True | Some b \<Rightarrow> b))"

definition execute_output :: "exn + completed_process \<Rightarrow> string" where
  \<comment> \<open>the \<open>try\<close> of lines 90 to 108, on what the checked run gave\<close>
  "execute_output r =
     (case r of
        Inr result \<Rightarrow> ''Execution Successful:'' @ NL @ NL @ stdout result
      | Inl (CalledProcessError m err) \<Rightarrow> ''Execution Failed (Runtime Error):'' @ NL @ NL @ err
      | Inl (TimeoutExpired m) \<Rightarrow> ''Execution Failed (Timeout): The code took too long to run.''
      | Inl (FileNotFoundError m) \<Rightarrow> ''Execution Failed: Python interpreter not found.''
      | Inl (OtherException m) \<Rightarrow> ''An unexpected error occurred during execution: '' @ m)"

definition deploy_code :: "body option \<Rightarrow> env \<Rightarrow> world \<Rightarrow> string \<times> world" where
  "deploy_code data env w =
     (let code = request_code data in
      if code = [] then (''Error: No code provided for execution.'', w)
      else
        (case write_file GENERATED_FILE code (save_generated env) w of
           (Inl e, w1) \<Rightarrow> (''Error saving file: '' @ str_exn e, w1)
         | (Inr u, w1) \<Rightarrow>
             (case subprocess_run_checked (cpe_text env) [''python'', GENERATED_FILE]
                     (generated_effect env) (run_generated env) w1 of
                (r, w2) \<Rightarrow> (execute_output r, w2))))"

section \<open>The Publish route\<close>

subsection \<open>Sequencing with a log and exceptions\<close>

type_synonym 'a prog = "state \<Rightarrow> (exn + 'a) \<times> state"

definition ret :: "'a \<Rightarrow> 'a prog" where
  "ret x s = (Inr x, s)"

definition seq :: "'a prog \<Rightarrow> ('a \<Rightarrow> 'b prog) \<Rightarrow> 'b prog" where
  \<comment> \<open>one statement after another: an exception skips the rest\<close>
  "seq m f s = (case m s of (Inl e, s') \<Rightarrow> (Inl e, s') | (Inr x, s') \<Rightarrow> f x s')"

definition log_append :: "string \<Rightarrow> unit prog" where
  \<comment> \<open>\<open>deployment_log.append(entry)\<close>\<close>
  "log_append entry s = (Inr (), s\<lparr>deployment_log := deployment_log s @ [entry]\<rparr>)"

definition get_log :: "string list prog" where
  "get_log s = (Inr (deployment_log s), s)"

record response =
  status :: string
  message :: string
  log :: "string list option"
  instructions :: "string option"
  error :: "string option"

subsection \<open>Classifying the output and materializing the site\<close>

definition looks_like_html :: "string \<Rightarrow> bool" where
  \<comment> \<open>line 152\<close>
  "looks_like_html output =
     (py_in ''<html'' (py_lower output) \<or> py_in ''<!doctype'' (py_lower output))"

definition html_head :: string where
  \<open>html_head = concat
     [''<!DOCTYPE html>'', NL,
      ''<html lang="en">'', NL,
      ''<head>'', NL,
      ''    <meta charset="UTF-8">'', NL,
      ''    <meta name="viewport" content="width=device-width, initial-scale=1.0">'', NL,
      ''    <title>Generated Output</title>'', NL,
      ''    <script src="https://cdn.tailwindcss.com"></script>'', NL,
      ''</head>'', NL,
      ''<body class="bg-gray-900 text-white min-h-screen p-8">'', NL,
      ''    <div class="max-w-4xl mx-auto">'', NL,
      ''        <h1 class="text-4xl font-bold mb-6 text-blue-400">Generated Output</h1>'', NL,
      ''        <div class="bg-gray-800 rounded-lg p-6 shadow-xl">'', NL,
      ''            <pre class="whitespace-pre-wrap font-mono text-green-400">'']\<close>

definition html_tail :: string where
  \<open>html_tail = concat
     [''</pre>'', NL,
      ''        </div>'', NL,
      ''        <footer class="mt-8 text-center text-gray-400">'', NL,
      ''            <p>Generated by LLM Code Deployment Tool</p>'', NL,
      ''        </footer>'', NL,
      ''    </div>'', NL,
      ''</body>'', NL,
      ''</html>'']\<close>

definition html_content :: "string \<Rightarrow> string" where
  \<comment> \<open>the f-string of lines 160 to 179\<close>
  "html_content output = html_head @ output @ html_tail"

definition readme_text :: string where
  \<open>readme_text = concat
     [''# Generated Code Output'', NL,
      NL,
      ''This page was automatically generated and deployed by the LLM Code Deployment Tool.'', NL,
      NL,
      ''## Auto-Deployment'', NL,
      NL,
      ''This project uses automated GitHub Pages deployment.'', NL,
      NL,
      ''## Source Code'', NL,
      NL,
      ''The Python code that generated this output is available in `generated_code.py`.'', NL]\<close>

definition code_file :: string where
  \<comment> \<open>\<open>docs_dir / 'generated_code.py'\<close>, as a POSIX path\<close>
  "code_file = GITHUB_PAGES_DIR @ ''/generated_code.py''"

definition index_file :: string where
  "index_file = GITHUB_PAGES_DIR @ ''/index.html''"

definition readme_file :: string where
  "readme_file = GITHUB_PAGES_DIR @ ''/README.md''"

definition write_entry_point :: "string \<Rightarrow> env \<Rightarrow> unit prog" where
  \<comment> \<open>lines 151 to 184\<close>
  "write_entry_point output env =
     (if looks_like_html output then
        seq (write_file index_file output (write_index env)) (\<lambda>_.
        log_append (CHECK @ '' Generated HTML page''))
      else
        seq (write_file index_file (html_content output) (write_index env)) (\<lambda>_.
        log_append (CHECK @ '' Created HTML wrapper'')))"

definition materialize :: "string \<Rightarrow> env \<Rightarrow> unit prog" where
  \<comment> \<open>lines 129 to 201\<close>
  "materialize code env =
     seq (mkdir GITHUB_PAGES_DIR (mkdir_docs env)) (\<lambda>_.
     seq (log_append (CHECK @ '' Created /docs directory'')) (\<lambda>_.
     seq (write_file code_file code (write_code_file env)) (\<lambda>_.
     seq (log_append (CHECK @ '' Saved Python code'')) (\<lambda>_.
     seq (subprocess_run [''python'', code_file] (code_effect env) (run_code env)) (\<lambda>result.
     seq (write_entry_point (if stdout result \<noteq> [] then stdout result else stderr result) env) (\<lambda>_.
     seq (write_file readme_file readme_text (write_readme env)) (\<lambda>_.
     log_append (CHECK @ '' Created README.md''))))))))"

subsection \<open>Driving git\<close>

definition remote_missing_instructions :: string where
  \<comment> \<open>lines 233 to 239\<close>
  "remote_missing_instructions = concat
     [NL,
      WARN, '' Git remote not configured!'', NL,
      NL,
      ''Please run these commands:'', NL,
      ''1. git remote add origin https://github.com/[username]/[repo-name].git'', NL,
      ''2. Then try deploying again for automatic push'', NL]"

definition manual_instructions :: string where
  \<comment> \<open>lines 329 to 334\<close>
  \<open>manual_instructions = concat
     [NL,
      ''Manual deployment steps:'', NL,
      ''1. git add docs/'', NL,
      ''2. git commit -m "Deploy to GitHub Pages"'', NL,
      ''3. git push origin main'', NL]\<close>

definition rev_parse_cmd :: "string list" where
  "rev_parse_cmd = [''git'', ''rev-parse'', ''--git-dir'']"

definition init_cmd :: "string list" where
  "init_cmd = [''git'', ''init'']"

definition get_url_cmd :: "string list" where
  "get_url_cmd = [''git'', ''remote'', ''get-url'', ''origin'']"

definition add_cmd :: "string list" where
  "add_cmd = [''git'', ''add'', ''docs/'']"

definition commit_cmd :: "string list" where
  "commit_cmd = [''git'', ''commit'', ''-m'', ''Auto-deploy: Generated code to GitHub Pages'']"

definition push_cmd :: "string list" where
  "push_cmd = [''git'', ''push'', ''origin'', ''main'']"

definition check_repo :: "env \<Rightarrow> response option prog" where
  \<comment> \<open>lines 207 to 240; \<open>Some r\<close> is the \<open>return\<close> of line 229\<close>
  "check_repo env =
     seq (subprocess_run rev_parse_cmd id (git_rev_parse env)) (\<lambda>git_check.
       if returncode git_check \<noteq> 0 then
         seq (subprocess_run_checked (cpe_text env) init_cmd id (git_init env)) (\<lambda>_.
         seq (log_append (CHECK @ '' Initialized Git repository'')) (\<lambda>_.
         seq (subprocess_run get_url_cmd id (git_remote_check env)) (\<lambda>remote_check.
           if returncode remote_check \<noteq> 0 then
             seq get_log (\<lambda>lg.
             ret (Some \<lparr>status = ''partial'',
                        message = ''Files created but Git remote not configured'',
                        log = Some lg,
                        instructions = Some remote_missing_instructions,
                        error = None\<rparr>))
           else ret None)))
       else ret None)"

definition commit_entry :: "completed_process \<Rightarrow> string" where
  \<comment> \<open>lines 259 to 266\<close>
  "commit_entry commit_result =
     (if returncode commit_result = 0 then CHECK @ '' Committed changes''
      else if py_in ''nothing to commit'' (py_lower (stdout commit_result))
      then INFO @ '' No changes to commit''
      else WARN @ '' Commit warning: '' @ stderr commit_result)"

definition pages_url :: "string \<Rightarrow> string option" where
  \<comment> \<open>lines 292 to 297; \<open>None\<close> when no URL is synthesized\<close>
  "pages_url remote_url =
     (if py_in ''github.com'' remote_url then
        (let parts = py_split (CHR ''/'') (py_replace ''.git'' [] remote_url) in
         if length parts \<ge> 2 then
           (let username = last (py_split (CHR '':'') (parts ! (length parts - 2)));
                repo = last parts
            in Some (''https://'' @ username @ ''.github.io/'' @ repo @ ''/''))
         else None)
      else None)"

definition site_entry :: "string \<Rightarrow> string" where
  \<comment> \<open>the entry of line 298\<close>
  "site_entry url = NL @ GLOBE @ '' Your site will be live at:'' @ NL @ ''   '' @ url"

definition report_pages_url :: "completed_process \<Rightarrow> unit prog" where
  \<comment> \<open>lines 289 to 300\<close>
  "report_pages_url remote_result =
     (if returncode remote_result = 0 then
        (case pages_url (py_strip (stdout remote_result)) of
           Some url \<Rightarrow>
             seq (log_append (site_entry url)) (\<lambda>_.
             seq (log_append (NL @ WARN @ '' Note: First deployment may take 1-2 minutes'')) (\<lambda>_.
             log_append (WARN @ '' Make sure GitHub Pages is enabled in repo settings!'')))
         | None \<Rightarrow> ret ())
      else ret ())"

definition pull_tip :: string where
  "pull_tip = NL @ BULB @ '' Tip: Try running 'git pull origin main' first''"

definition credentials_tip :: string where
  "credentials_tip = NL @ BULB @ '' Tip: Check your Git credentials or use SSH keys''"

definition push_tips :: "string \<Rightarrow> unit prog" where
  \<comment> \<open>lines 312 to 315\<close>
  "push_tips error_msg =
     (if py_in ''rejected'' (py_lower error_msg) then log_append pull_tip
      else if py_in ''could not read'' (py_lower error_msg)
              \<or> py_in ''authentication'' (py_lower error_msg)
      then log_append credentials_tip
      else ret ())"

definition push_report :: "completed_process \<Rightarrow> env \<Rightarrow> response prog" where
  \<comment> \<open>lines 277 to 322\<close>
  "push_report push_result env =
     (if returncode push_result = 0 then
        seq (log_append (CHECK @ '' Pushed to GitHub successfully!'')) (\<lambda>_.
        seq (log_append (NL @ PARTY @ '' DEPLOYMENT COMPLETE!'')) (\<lambda>_.
        seq (subprocess_run get_url_cmd id (git_remote_result env)) (\<lambda>remote_result.
        seq (report_pages_url remote_result) (\<lambda>_.
        seq get_log (\<lambda>lg.
        ret \<lparr>status = ''success'',
             message = ''Automatically deployed to GitHub Pages!'',
             log = Some lg,
             instructions = None,
             error = None\<rparr>)))))
      else
        seq (log_append (CROSS @ '' Push failed: '' @ stderr push_result)) (\<lambda>_.
        seq (push_tips (stderr push_result)) (\<lambda>_.
        seq get_log (\<lambda>lg.
        ret \<lparr>status = ''partial'',
             message = ''Files created and committed, but push failed'',
             log = Some lg,
             instructions = None,
             error = Some (stderr push_result)\<rparr>))))"

definition git_deploy :: "env \<Rightarrow> response prog" where
  \<comment> \<open>lines 205 to 322, the branch \<open>if auto_push\<close>\<close>
  "git_deploy env =
     seq (log_append (NL @ CYCLE @ '' Starting automated Git deployment...'')) (\<lambda>_.
     seq (check_repo env) (\<lambda>early.
       case early of
         Some r \<Rightarrow> ret r
       | None \<Rightarrow>
           seq (subprocess_run add_cmd id (git_add env)) (\<lambda>add_result.
           seq (log_append (CHECK @ '' Added files to Git'')) (\<lambda>_.
           seq (subprocess_run commit_cmd id (git_commit env)) (\<lambda>commit_result.
           seq (log_append (commit_entry commit_result)) (\<lambda>_.
           seq (subprocess_run push_cmd id (git_push env)) (\<lambda>push_result.
           push_report push_result env)))))))"

definition manual_mode :: "response prog" where
  \<comment> \<open>lines 323 to 335, the branch \<open>else\<close>\<close>
  "manual_mode =
     seq get_log (\<lambda>lg.
     ret \<lparr>status = ''success'',
          message = ''Files created successfully'',
          log = Some lg,
          instructions = Some manual_instructions,
          error = None\<rparr>)"

definition pipeline :: "string \<Rightarrow> bool \<Rightarrow> env \<Rightarrow> response prog" where
  \<comment> \<open>the body of the \<open>try\<close>, lines 129 to 335\<close>
  "pipeline code auto_push env =
     seq (materialize code env) (\<lambda>_. if auto_push then git_deploy env else manual_mode)"

definition handle :: "(exn + response) \<times> state \<Rightarrow> response \<times> world" where
  \<comment> \<open>the two handlers, lines 337 to 350\<close>
  "handle r =
     (case r of
        (Inr resp, s) \<Rightarrow> (resp, \<lparr>trace = trace s, files = files s\<rparr>)
      | (Inl (TimeoutExpired m), s) \<Rightarrow>
          (\<lparr>status = ''error'',
            message = ''Deployment timed out'',
            log = Some (deployment_log s @ [CROSS @ '' Operation timed out'']),
            instructions = None,
            error = None\<rparr>,
           \<lparr>trace = trace s, files = files s\<rparr>)
      | (Inl e, s) \<Rightarrow>
          (\<lparr>status = ''error'',
            message = ''Deployment failed: '' @ str_exn e,
            log = Some (deployment_log s @ [CROSS @ '' Error: '' @ str_exn e]),
            instructions = None,
            error = None\<rparr>,
           \<lparr>trace = trace s, files = files s\<rparr>))"

definition deploy_to_github :: "body option \<Rightarrow> env \<Rightarrow> world \<Rightarrow> response \<times> world" where
  "deploy_to_github data env w =
     (let code = request_code data; auto_push = request_auto_push data in
      if code = [] then
        (\<lparr>status = ''error'',
          message = ''No code provided for deployment.'',
          log = None,
          instructions = None,
          error = None\<rparr>, w)
      else
        handle (pipeline code auto_push env
                  \<lparr>trace = trace w, files = files w, deployment_log = []\<rparr>))"

section \<open>Observing one request\<close>

definition new_events :: "world \<Rightarrow> world \<Rightarrow> event list" where
  \<comment> \<open>what a request that took the world from \<open>w\<close> to \<open>w'\<close> attempted\<close>
  "new_events w w' = drop (length (trace w)) (trace w')"

definition ok :: completed_process where
  "ok = \<lparr>returncode = 0, stdout = [], stderr = []\<rparr>"

definition failed :: "string \<Rightarrow> completed_process" where
  "failed err = \<lparr>returncode = 1, stdout = [], stderr = err\<rparr>"

definition printed :: "string \<Rightarrow> completed_process" where
  "printed out = \<lparr>returncode = 0, stdout = out, stderr = []\<rparr>"

definition env_ok :: env where
  \<comment> \<open>an existing repository with a remote, where every step succeeds\<close>
  "env_ok =
     \<lparr>save_generated = Written,
      run_generated = Inr (printed (''hi'' @ NL)),
      generated_effect = id,
      mkdir_docs = None,
      write_code_file = Written,
      run_code = Inr (printed (''a < b && c > d'' @ NL)),
      code_effect = id,
      write_index = Written,
      write_readme = Written,
      git_rev_parse = Inr (printed (''.git'' @ NL)),
      git_init = Inr ok,
      git_remote_check = Inr (printed (''https://github.com/alice/site.git'' @ NL)),
      git_add = Inr ok,
      git_commit = Inr ok,
      git_push = Inr ok,
      git_remote_result = Inr (printed (''https://github.com/alice/site.git'' @ NL)),
      cpe_text = (\<lambda>args rc. ''Command returned non-zero exit status'')\<rparr>"

definition empty_world :: world where
  "empty_world = \<lparr>trace = [], files = Map.empty\<rparr>"

definition request :: "string \<Rightarrow> bool \<Rightarrow> body option" where
  "request c a = Some \<lparr>code_field = Some c, auto_push_field = Some a\<rparr>"

definition env_rejected :: env where
  \<comment> \<open>the remote has commits the local branch lacks\<close>
  "env_rejected =
     env_ok\<lparr>git_push := Inr (failed '' ! [rejected] main -> main (fetch first)'')\<rparr>"

definition env_auth :: env where
  \<comment> \<open>the remote refuses the credentials\<close>
  "env_auth =
     env_ok\<lparr>git_push := Inr (failed ''fatal: Authentication failed for the remote'')\<rparr>"

definition env_rejected_auth :: env where
  \<comment> \<open>an error text with both phrases\<close>
  "env_rejected_auth =
     env_ok\<lparr>git_push := Inr (failed ''remote: authentication required; push rejected'')\<rparr>"

definition env_push_timeout :: env where
  \<comment> \<open>the push does not finish within 30 seconds\<close>
  "env_push_timeout =
     env_ok\<lparr>git_push := Inl (TimeoutExpired ''Command timed out after 30 seconds'')\<rparr>"

definition env_no_repo :: env where
  \<comment> \<open>no repository yet, and no remote after \<open>git init\<close>\<close>
  "env_no_repo =
     env_ok\<lparr>git_rev_parse := Inr \<lparr>returncode = 128, stdout = [],
                                 stderr = ''fatal: not a git repository''\<rparr>,
            git_remote_check := Inr \<lparr>returncode = 2, stdout = [],
                                    stderr = ''error: No such remote origin''\<rparr>\<rparr>"

definition env_disk_full :: env where
  \<comment> \<open>the directory exists, the source file cannot be written\<close>
  "env_disk_full =
     env_ok\<lparr>write_code_file := WriteFailed ''[Errno 28] No space left on device'' 0\<rparr>"

definition env_index_fails :: env where
  "env_index_fails =
     env_ok\<lparr>write_index := WriteFailed ''[Errno 28] No space left on device'' 0\<rparr>"

definition env_readme_fails :: env where
  "env_readme_fails =
     env_ok\<lparr>write_readme := WriteFailed ''[Errno 28] No space left on device'' 0\<rparr>"

definition env_no_dir :: env where
  \<comment> \<open>the publish directory cannot be created\<close>
  "env_no_dir = env_ok\<lparr>mkdir_docs := Some ''[Errno 13] Permission denied''\<rparr>"

definition env_read_only :: env where
  \<comment> \<open>the working directory cannot be written\<close>
  "env_read_only = env_ok\<lparr>save_generated := OpenFailed ''[Errno 30] Read-only file system''\<rparr>"

definition claimed_prefixes :: "string list" where
  \<comment> \<open>the prefixes the specification lists for the output of Execute\<close>
  "claimed_prefixes =
     [''Execution Successful:'', ''Execution Failed (Runtime Error):'',
      ''Execution Failed (Timeout):'', ''Execution Failed:'', ''An unexpected error'']"

definition prefix_of :: "string \<Rightarrow> string \<Rightarrow> bool" where
  \<comment> \<open>the text starts with the prefix: \<open>text.startswith(p)\<close>\<close>
  "prefix_of text p = prefix p text"

definition execute_prefixes :: "string list" where
  \<comment> \<open>with the one for a source that could not be saved, line 87\<close>
  "execute_prefixes = ''Error saving file:'' # claimed_prefixes"

definition is_upper :: "char \<Rightarrow> bool" where
  \<comment> \<open>the code unit is one of the capital letters of ASCII, 65 to 90\<close>
  "is_upper c = (65 \<le> (of_char c :: nat) \<and> (of_char c :: nat) \<le> 90)"

definition same_ignoring_case :: "char \<Rightarrow> char \<Rightarrow> bool" where
  \<comment> \<open>the same character, or a capital letter and its small letter, 32 further on\<close>
  "same_ignoring_case c d =
     (c = d \<or>
      (is_upper c \<and> (of_char d :: nat) = of_char c + 32) \<or>
      (is_upper d \<and> (of_char c :: nat) = of_char d + 32))"

definition occurs_ignoring_case :: "string \<Rightarrow> string \<Rightarrow> bool" where
  \<comment> \<open>the specification's words: the marker, in any mix of cases, anywhere in the text\<close>
  "occurs_ignoring_case marker text =
     (\<exists>pre m post. text = pre @ m @ post \<and> list_all2 same_ignoring_case m marker)"

definition spec_is_document :: "string \<Rightarrow> bool" where
  \<comment> \<open>the specification's words: the text contains a document-start marker\<close>
  "spec_is_document text =
     (occurs_ignoring_case ''<html'' text \<or> occurs_ignoring_case ''<!doctype'' text)"

definition env_pages_repo :: env where
  \<comment> \<open>the repository of a user's own site, named after the host that serves it\<close>
  "env_pages_repo =
     env_ok\<lparr>git_remote_result :=
       Inr (printed (''https://github.com/alice/alice.github.io.git'' @ NL))\<rparr>"

definition env_self_delete :: env where
  \<comment> \<open>the executed code removes its own source file\<close>
  "env_self_delete = env_ok\<lparr>generated_effect := (\<lambda>fs. fs(GENERATED_FILE := None))\<rparr>"

section \<open>Predicates on the trace of a program\<close>

text \<open>
  A program is \<open>quiet\<close> about an event when it only appends events other than that one;
  it is \<open>extending\<close> when it only appends; an event is \<open>attempted\<close> by a program
  from a state when the program appends it.
\<close>

definition quiet :: "event \<Rightarrow> 'a prog \<Rightarrow> bool" where
  "quiet a m = (\<forall>s. \<exists>evs. trace (snd (m s)) = trace s @ evs \<and> a \<notin> set evs)"

definition attempted :: "event \<Rightarrow> 'a prog \<Rightarrow> state \<Rightarrow> bool" where
  "attempted a m s = (a \<in> set (drop (length (trace s)) (trace (snd (m s)))))"

definition extending :: "'a prog \<Rightarrow> bool" where
  "extending m = (\<forall>s. \<exists>evs. trace (snd (m s)) = trace s @ evs)"

definition push_failed_post :: "completed_process \<Rightarrow> (exn + response) \<times> state \<Rightarrow> bool" where
  "push_failed_post p r =
     (\<exists>resp s lg. r = (Inr resp, s) \<and> status resp = ''partial'' \<and> log resp = Some lg \<and>
        error resp = Some (stderr p) \<and>
        (py_in ''rejected'' (py_lower (stderr p)) \<longrightarrow> pull_tip \<in> set lg) \<and>
        (\<not> py_in ''rejected'' (py_lower (stderr p)) \<and>
         (py_in ''could not read'' (py_lower (stderr p)) \<or> py_in ''authentication'' (py_lower (stderr p)))
           \<longrightarrow> credentials_tip \<in> set lg))"

definition untouched :: "string \<Rightarrow> 'a prog \<Rightarrow> bool" where
  \<comment> \<open>the program leaves the content of the file as it is\<close>
  "untouched path m = (\<forall>s. files (snd (m s)) path = files s path)"

section \<open>How a program extends the trace\<close>

lemmas cmds = push_cmd_def rev_parse_cmd_def init_cmd_def get_url_cmd_def add_cmd_def commit_cmd_def

lemmas eval_prims = seq_def ret_def log_append_def get_log_def mkdir_def write_file_def
  subprocess_run_def subprocess_run_checked_def

lemmas eval_stages = deploy_to_github_def pipeline_def materialize_def write_entry_point_def
  git_deploy_def check_repo_def push_report_def push_tips_def report_pages_url_def
  manual_mode_def handle_def commit_entry_def looks_like_html_def py_lower_def lower_char_def
  request_code_def request_auto_push_def new_events_def Let_def

lemmas eval_envs = env_ok_def empty_world_def request_def printed_def ok_def NL_def

lemma quiet_ret: "quiet a (ret x)"
  by (simp add: quiet_def ret_def)

lemma quiet_log_append: "quiet a (log_append e)"
  by (simp add: quiet_def log_append_def)

lemma quiet_get_log: "quiet a get_log"
  by (simp add: quiet_def get_log_def)

lemma quiet_mkdir: "a \<noteq> Mkdir path \<Longrightarrow> quiet a (mkdir path ans)"
  by (simp add: quiet_def mkdir_def split: option.split)

lemma quiet_write_file: "a \<noteq> WriteFile path c \<Longrightarrow> quiet a (write_file path c ans)"
  by (simp add: quiet_def write_file_def split: write_answer.split)

lemma quiet_run: "a \<noteq> Run args \<Longrightarrow> quiet a (subprocess_run args eff ans)"
  by (simp add: quiet_def subprocess_run_def)

lemma quiet_run_checked:
  "a \<noteq> Run args \<Longrightarrow> quiet a (subprocess_run_checked t args eff ans)"
  by (simp add: quiet_def subprocess_run_checked_def split: sum.split)

lemma quiet_seq:
  assumes "quiet a m" and "\<And>x. quiet a (f x)"
  shows "quiet a (seq m f)"
proof (unfold quiet_def, intro allI)
  fix s
  obtain r s1 where ms: "m s = (r, s1)" by (cases "m s")
  from assms(1) obtain evs where e1: "trace s1 = trace s @ evs" "a \<notin> set evs"
    unfolding quiet_def using ms by (metis snd_conv)
  show "\<exists>evs. trace (snd (seq m f s)) = trace s @ evs \<and> a \<notin> set evs"
  proof (cases r)
    case (Inl e)
    then show ?thesis using ms e1 by (simp add: seq_def)
  next
    case (Inr x)
    from assms(2)[of x] obtain evs2 where "trace (snd (f x s1)) = trace s1 @ evs2" "a \<notin> set evs2"
      unfolding quiet_def by blast
    then show ?thesis using ms e1 Inr by (simp add: seq_def)
  qed
qed

lemma quiet_extending: "quiet a m \<Longrightarrow> extending m"
  unfolding quiet_def extending_def by blast

lemma extending_run: "extending (subprocess_run args eff ans)"
  by (simp add: extending_def subprocess_run_def)

lemma extending_seq:
  assumes "extending m" and "\<And>x. extending (f x)"
  shows "extending (seq m f)"
proof (unfold extending_def, intro allI)
  fix s
  obtain r s1 where ms: "m s = (r, s1)" by (cases "m s")
  from assms(1) obtain evs where e1: "trace s1 = trace s @ evs"
    unfolding extending_def using ms by (metis snd_conv)
  show "\<exists>evs. trace (snd (seq m f s)) = trace s @ evs"
  proof (cases r)
    case (Inl e)
    then show ?thesis using ms e1 by (simp add: seq_def)
  next
    case (Inr x)
    from assms(2)[of x] obtain evs2 where "trace (snd (f x s1)) = trace s1 @ evs2"
      unfolding extending_def by blast
    then show ?thesis using ms e1 Inr by (simp add: seq_def)
  qed
qed

lemma quiet_if: "quiet a m \<Longrightarrow> quiet a n \<Longrightarrow> quiet a (if c then m else n)"
  by simp

lemma quiet_not_attempted: "quiet a m \<Longrightarrow> \<not> attempted a m s"
  unfolding quiet_def attempted_def
  by (metis append_eq_conv_conj)

lemma seq_reach:
  assumes "quiet a m" and "\<And>x. extending (f x)" and "attempted a (seq m f) s"
  obtains x s' where "m s = (Inr x, s')" and "seq m f s = f x s'" and "attempted a (f x) s'"
proof -
  obtain r s1 where ms: "m s = (r, s1)" by (cases "m s")
  from assms(1) obtain evs where e1: "trace s1 = trace s @ evs" "a \<notin> set evs"
    unfolding quiet_def using ms by (metis snd_conv)
  show ?thesis
  proof (cases r)
    case (Inl e)
    then have "seq m f s = (Inl e, s1)" using ms by (simp add: seq_def)
    then have False using assms(3) e1 by (simp add: attempted_def)
    then show ?thesis ..
  next
    case (Inr x)
    then have eq: "seq m f s = f x s1" using ms by (simp add: seq_def)
    from assms(2)[of x] obtain evs2 where e2: "trace (snd (f x s1)) = trace s1 @ evs2"
      unfolding extending_def by blast
    have "attempted a (f x) s1"
      using assms(3) e1 e2 eq by (simp add: attempted_def)
    then show ?thesis using that ms Inr eq by blast
  qed
qed

lemmas quiet_rules = quiet_seq quiet_ret quiet_log_append quiet_get_log quiet_mkdir
  quiet_write_file quiet_run quiet_run_checked

lemma quiet_materialize: "quiet (Run (''git'' # args)) (materialize code env)"
  unfolding materialize_def write_entry_point_def
  by (intro quiet_rules quiet_if) simp_all

lemma quiet_check_repo: "quiet (Run push_cmd) (check_repo env)"
  unfolding check_repo_def 
  by (intro quiet_rules quiet_if) (simp_all add: cmds)

lemma quiet_push_tips: "quiet a (push_tips m)"
  unfolding push_tips_def by (intro quiet_rules quiet_if)

lemma quiet_report_pages_url: "quiet a (report_pages_url r)"
  unfolding report_pages_url_def by (auto intro!: quiet_rules split: option.split)

lemma extending_push_report: "extending (push_report p env)"
  unfolding push_report_def
  by (auto intro!: extending_seq extending_run quiet_extending[OF quiet_log_append] quiet_extending[OF quiet_get_log]
      quiet_extending[OF quiet_ret]  quiet_extending[OF quiet_report_pages_url] quiet_extending[OF quiet_push_tips])

lemma extending_ret: "extending (ret x)"
  by (rule quiet_extending[OF quiet_ret])
lemma extending_log_append: "extending (log_append e)"
  by (rule quiet_extending[OF quiet_log_append])
lemma extending_get_log: "extending get_log"
  by (rule quiet_extending[OF quiet_get_log])
lemma extending_mkdir: "extending (mkdir p ans)"
  by (simp add: extending_def mkdir_def split: option.split)
lemma extending_write_file: "extending (write_file p c ans)"
  by (simp add: extending_def write_file_def split: write_answer.split)
lemma extending_run_checked: "extending (subprocess_run_checked t args eff ans)"
  by (simp add: extending_def subprocess_run_checked_def split: sum.split)

lemmas extending_rules = extending_seq extending_ret extending_log_append extending_get_log
  extending_mkdir extending_write_file extending_run extending_run_checked

lemma extending_check_repo: "extending (check_repo env)"
  unfolding check_repo_def by (auto intro!: extending_rules)

lemma extending_git_deploy: "extending (git_deploy env)"
  unfolding git_deploy_def
  by (auto intro!: extending_rules extending_check_repo extending_push_report split: option.split)

lemma extending_manual_mode: "extending manual_mode"
  unfolding manual_mode_def by (auto intro!: extending_rules)

lemma reach_post:
  assumes "attempted a (seq m f) s" and "quiet a m" and "\<And>x. extending (f x)"
    and "\<And>x s'. attempted a (f x) s' \<Longrightarrow> Q (f x s')"
  shows "Q (seq m f s)"
  using seq_reach[OF assms(2,3,1)] assms(4) by metis

lemma push_step_post:
  assumes "git_push env = Inr p" and "returncode p \<noteq> 0"
  shows "push_failed_post p (seq (subprocess_run push_cmd id (git_push env)) (\<lambda>r. push_report r env) s)"
  using assms
  by (simp add: push_failed_post_def seq_def subprocess_run_def push_report_def push_tips_def
      log_append_def get_log_def ret_def)

lemma git_deploy_push_post:
  assumes att: "attempted (Run push_cmd) (git_deploy env) s"
    and push: "git_push env = Inr p" "returncode p \<noteq> 0"
  shows "push_failed_post p (git_deploy env s)"
  using att unfolding git_deploy_def
  apply (rule reach_post[where Q = "push_failed_post p"])
    apply (rule quiet_log_append)
   apply (auto intro!: extending_rules extending_check_repo extending_push_report
      split: option.split)[1]
  apply (erule reach_post[where Q = "push_failed_post p"])
    apply (rule quiet_check_repo)
   apply (auto intro!: extending_rules extending_check_repo extending_push_report
      split: option.split)[1]
  subgoal for _ _ early s2
    apply (cases early)
     apply simp
     apply (erule reach_post[where Q = "push_failed_post p"])
       apply (rule quiet_rules, simp add: cmds)
      apply (auto intro!: extending_rules extending_push_report)[1]
     apply (erule reach_post[where Q = "push_failed_post p"])
       apply (rule quiet_rules)
      apply (auto intro!: extending_rules extending_push_report)[1]
     apply (erule reach_post[where Q = "push_failed_post p"])
       apply (rule quiet_rules, simp add: cmds)
      apply (auto intro!: extending_rules extending_push_report)[1]
     apply (erule reach_post[where Q = "push_failed_post p"])
       apply (rule quiet_rules)
      apply (auto intro!: extending_rules extending_push_report)[1]
     apply (rule push_step_post[OF push])
    apply (simp add: quiet_not_attempted[OF quiet_ret])
    done
  done

lemma quiet_manual_mode: "quiet a manual_mode"
  unfolding manual_mode_def by (intro quiet_rules)

lemma trace_handle: "trace (snd (handle r)) = trace (snd r)"
  by (cases r) (auto simp: handle_def split: sum.split exn.split)

lemma pipeline_push_post:
  assumes att: "attempted (Run push_cmd) (pipeline code auto_push env) s"
    and push: "git_push env = Inr p" "returncode p \<noteq> 0"
  shows "push_failed_post p (pipeline code auto_push env s)"
  using att unfolding pipeline_def
proof (rule reach_post[where Q="push_failed_post p"])
  show "quiet (Run push_cmd) (materialize code env)"
    unfolding push_cmd_def by (rule quiet_materialize)
  show "extending (if auto_push then git_deploy env else manual_mode)" for x :: unit
    by (simp add: extending_git_deploy extending_manual_mode)
  show "push_failed_post p ((if auto_push then git_deploy env else manual_mode) s')"
    if "attempted (Run push_cmd) (if auto_push then git_deploy env else manual_mode) s'"
    for x :: unit and s'
  proof (cases auto_push)
    case True
    then show ?thesis using that git_deploy_push_post[OF _ push] by simp
  next
    case False
    then show ?thesis using that quiet_not_attempted[OF quiet_manual_mode] by simp
  qed
qed

section \<open>Push failures\<close>

text \<open>
  C1 (as amended). Whenever a request reaches the push and \<open>git push\<close> completes with
  a non-zero exit status, the result has status \<open>partial\<close> and carries the error text;
  its log holds the pull tip when the lowered error text contains \<open>rejected\<close>, and
  otherwise the credentials tip when it contains \<open>could not read\<close> or
  \<open>authentication\<close>.
\<close>

theorem push_failure_is_partial:
  assumes "Run push_cmd \<in> set (new_events w (snd (deploy_to_github data env w)))"
    and "git_push env = Inr p" and "returncode p \<noteq> 0"
  shows "\<exists>lg. status (fst (deploy_to_github data env w)) = ''partial'' \<and>
          log (fst (deploy_to_github data env w)) = Some lg \<and>
          error (fst (deploy_to_github data env w)) = Some (stderr p) \<and>
          (py_in ''rejected'' (py_lower (stderr p)) \<longrightarrow> pull_tip \<in> set lg) \<and>
          (\<not> py_in ''rejected'' (py_lower (stderr p)) \<and>
           (py_in ''could not read'' (py_lower (stderr p)) \<or>
            py_in ''authentication'' (py_lower (stderr p)))
             \<longrightarrow> credentials_tip \<in> set lg)"
proof (cases "request_code data = []")
  case True
  then show ?thesis using assms(1) by (simp add: deploy_to_github_def new_events_def)
next
  case False
  define s0 where "s0 = \<lparr>trace = trace w, files = files w, deployment_log = []\<rparr>"
  define run where "run = pipeline (request_code data) (request_auto_push data) env s0"
  have R: "deploy_to_github data env w = handle run"
    using False by (simp add: deploy_to_github_def run_def s0_def)
  have "attempted (Run push_cmd) (pipeline (request_code data) (request_auto_push data) env) s0"
    using assms(1) unfolding R attempted_def new_events_def trace_handle run_def
    by (simp add: s0_def)
  from pipeline_push_post[OF this assms(2,3)] show ?thesis
    unfolding R run_def[symmetric] push_failed_post_def
    by (auto simp: handle_def)
qed

text \<open>
  The amended claim at two requests: one whose push is rejected, one whose push fails
  to authenticate.
\<close>

theorem push_failure_is_partial_witness:
  "Run push_cmd \<in> set (new_events empty_world
       (snd (deploy_to_github (request ''print(1)'' True) env_rejected empty_world))) \<and>
   py_in ''rejected'' (py_lower '' ! [rejected] main -> main (fetch first)'') \<and>
   status (fst (deploy_to_github (request ''print(1)'' True) env_rejected empty_world)) = ''partial'' \<and>
   pull_tip \<in> set (the (log (fst (deploy_to_github (request ''print(1)'' True) env_rejected empty_world)))) \<and>
   Run push_cmd \<in> set (new_events empty_world
       (snd (deploy_to_github (request ''print(1)'' True) env_auth empty_world))) \<and>
   \<not> py_in ''rejected'' (py_lower ''fatal: Authentication failed for the remote'') \<and>
   py_in ''authentication'' (py_lower ''fatal: Authentication failed for the remote'') \<and>
   status (fst (deploy_to_github (request ''print(1)'' True) env_auth empty_world)) = ''partial'' \<and>
   credentials_tip \<in> set (the (log (fst (deploy_to_github (request ''print(1)'' True) env_auth empty_world))))"
proof -
  have a1: "Run push_cmd \<in> set (new_events empty_world
       (snd (deploy_to_github (request ''print(1)'' True) env_rejected empty_world)))"
    by (simp add: eval_stages eval_prims eval_envs env_rejected_def failed_def cmds)
  have b1: "git_push env_rejected = Inr (failed '' ! [rejected] main -> main (fetch first)'')"
    by (simp add: env_rejected_def)
  have c1: "returncode (failed '' ! [rejected] main -> main (fetch first)'') \<noteq> 0"
    by (simp add: failed_def)
  have d1: "py_in ''rejected'' (py_lower '' ! [rejected] main -> main (fetch first)'')"
    by (simp add: py_lower_def lower_char_def)
  have a2: "Run push_cmd \<in> set (new_events empty_world
       (snd (deploy_to_github (request ''print(1)'' True) env_auth empty_world)))"
    by (simp add: eval_stages eval_prims eval_envs env_auth_def failed_def cmds)
  have b2: "git_push env_auth = Inr (failed ''fatal: Authentication failed for the remote'')"
    by (simp add: env_auth_def)
  have c2: "returncode (failed ''fatal: Authentication failed for the remote'') \<noteq> 0"
    by (simp add: failed_def)
  have d2: "\<not> py_in ''rejected'' (py_lower ''fatal: Authentication failed for the remote'')"
    "py_in ''authentication'' (py_lower ''fatal: Authentication failed for the remote'')"
    by (simp_all add: py_lower_def lower_char_def)
  from push_failure_is_partial[OF a1 b1 c1] push_failure_is_partial[OF a2 b2 c2]
  show ?thesis using a1 a2 d1 d2 by (auto simp: failed_def)
qed

text \<open>
  The claim as it was stated fails twice. A push that exceeds the timeout raises
  \<open>TimeoutExpired\<close>, which the handler of line 337 turns into status \<open>error\<close>; and an
  error text with both phrases gets the pull tip only, the two tests being \<open>if\<close> and
  \<open>elif\<close>.
\<close>

theorem push_failure_counterexample:
  "Run push_cmd \<in> set (new_events empty_world
       (snd (deploy_to_github (request ''print(1)'' True) env_push_timeout empty_world))) \<and>
   git_push env_push_timeout = Inl (TimeoutExpired ''Command timed out after 30 seconds'') \<and>
   status (fst (deploy_to_github (request ''print(1)'' True) env_push_timeout empty_world)) = ''error'' \<and>
   status (fst (deploy_to_github (request ''print(1)'' True) env_push_timeout empty_world)) \<noteq> ''partial'' \<and>
   Run push_cmd \<in> set (new_events empty_world
       (snd (deploy_to_github (request ''print(1)'' True) env_rejected_auth empty_world))) \<and>
   py_in ''authentication'' (py_lower ''remote: authentication required; push rejected'') \<and>
   credentials_tip \<notin> set (the (log (fst (deploy_to_github (request ''print(1)'' True) env_rejected_auth empty_world))))"
  by (simp add: eval_stages eval_prims eval_envs env_push_timeout_def env_rejected_auth_def failed_def cmds pull_tip_def credentials_tip_def
      CHECK_def CROSS_def CYCLE_def BULB_def)

section \<open>Validation\<close>

text \<open>
  C5. A request whose code is empty (or absent) returns the validation error at once:
  the response carries no log, and the world is the one the request found, no effect
  having been attempted.
\<close>

theorem empty_code_fails_fast:
  assumes "request_code data = []"
  shows "deploy_to_github data env w =
     (\<lparr>status = ''error'', message = ''No code provided for deployment.'',
       log = None, instructions = None, error = None\<rparr>, w)"
  using assms by (simp add: deploy_to_github_def)

text \<open>An empty code, and a request with no body at all.\<close>

theorem empty_code_fails_fast_witness:
  "request_code (request [] True) = [] \<and>
   deploy_to_github (request [] True) env_ok empty_world =
     (\<lparr>status = ''error'', message = ''No code provided for deployment.'',
       log = None, instructions = None, error = None\<rparr>, empty_world) \<and>
   request_code None = [] \<and>
   log (fst (deploy_to_github None env_ok empty_world)) = None \<and>
   new_events empty_world (snd (deploy_to_github None env_ok empty_world)) = []"
proof -
  have a: "request_code (request [] True) = []" "request_code None = []"
    by (simp_all add: request_code_def request_def)
  show ?thesis
    using a empty_code_fails_fast[OF a(1), of env_ok empty_world]
      empty_code_fails_fast[OF a(2), of env_ok empty_world]
    by (simp add: new_events_def)
qed

section \<open>Manual mode\<close>

lemma quiet_pipeline_manual: "quiet (Run (''git'' # args)) (pipeline code False env)"
  unfolding pipeline_def by (simp add: quiet_seq quiet_materialize quiet_manual_mode)

lemma new_events_handle:
  "new_events w (snd (handle (m \<lparr>trace = trace w, files = files w, deployment_log = []\<rparr>))) =
   drop (length (trace w)) (trace (snd (m \<lparr>trace = trace w, files = files w, deployment_log = []\<rparr>)))"
  by (simp add: new_events_def trace_handle)

text \<open>
  C2 (as amended). A request with non-empty code and \<open>auto_push\<close> false runs no git
  command at all, whatever the environment answers; when the directory, the three
  writes and the run of the code succeed, it returns status \<open>success\<close> with the
  instructions for publishing by hand.
\<close>

theorem manual_mode_runs_no_git:
  assumes "request_code data \<noteq> []" and "\<not> request_auto_push data"
  shows "(\<forall>args. Run (''git'' # args) \<notin> set (new_events w (snd (deploy_to_github data env w)))) \<and>
         (mkdir_docs env = None \<and> write_code_file env = Written \<and> run_code env = Inr result \<and>
          write_index env = Written \<and> write_readme env = Written \<longrightarrow>
            status (fst (deploy_to_github data env w)) = ''success'' \<and>
            message (fst (deploy_to_github data env w)) = ''Files created successfully'' \<and>
            instructions (fst (deploy_to_github data env w)) = Some manual_instructions)"
proof (intro conjI allI impI)
  fix args
  define s0 where "s0 = \<lparr>trace = trace w, files = files w, deployment_log = []\<rparr>"
  have R: "deploy_to_github data env w = handle (pipeline (request_code data) False env s0)"
    using assms by (simp add: deploy_to_github_def s0_def)
  have "\<not> attempted (Run (''git'' # args)) (pipeline (request_code data) False env) s0"
    by (rule quiet_not_attempted[OF quiet_pipeline_manual])
  then show "Run (''git'' # args) \<notin> set (new_events w (snd (deploy_to_github data env w)))"
    unfolding R s0_def new_events_handle attempted_def by simp
next
  assume ok: "mkdir_docs env = None \<and> write_code_file env = Written \<and> run_code env = Inr result \<and>
          write_index env = Written \<and> write_readme env = Written"
  have R: "deploy_to_github data env w =
      handle (pipeline (request_code data) False env \<lparr>trace = trace w, files = files w, deployment_log = []\<rparr>)"
    using assms by (simp add: deploy_to_github_def)
  have "\<exists>s. pipeline (request_code data) False env \<lparr>trace = trace w, files = files w, deployment_log = []\<rparr> =
     (Inr \<lparr>status = ''success'', message = ''Files created successfully'',
          log = Some (deployment_log s), instructions = Some manual_instructions, error = None\<rparr>, s)"
    using ok
    by (simp add: pipeline_def materialize_def write_entry_point_def manual_mode_def eval_prims)
  then obtain s where P: "pipeline (request_code data) False env \<lparr>trace = trace w, files = files w, deployment_log = []\<rparr> =
     (Inr \<lparr>status = ''success'', message = ''Files created successfully'',
          log = Some (deployment_log s), instructions = Some manual_instructions, error = None\<rparr>, s)" ..
  show "status (fst (deploy_to_github data env w)) = ''success''"
    "message (fst (deploy_to_github data env w)) = ''Files created successfully''"
    "instructions (fst (deploy_to_github data env w)) = Some manual_instructions"
    unfolding R P by (simp_all add: handle_def)
qed

text \<open>A request in manual mode where every step succeeds.\<close>

theorem manual_mode_runs_no_git_witness:
  "request_code (request ''print(1)'' False) \<noteq> [] \<and>
   \<not> request_auto_push (request ''print(1)'' False) \<and>
   Run (''git'' # [''rev-parse'', ''--git-dir'']) \<notin> set (new_events empty_world
       (snd (deploy_to_github (request ''print(1)'' False) env_ok empty_world))) \<and>
   Run (''git'' # [''push'', ''origin'', ''main'']) \<notin> set (new_events empty_world
       (snd (deploy_to_github (request ''print(1)'' False) env_ok empty_world))) \<and>
   status (fst (deploy_to_github (request ''print(1)'' False) env_ok empty_world)) = ''success'' \<and>
   instructions (fst (deploy_to_github (request ''print(1)'' False) env_ok empty_world)) =
     Some manual_instructions"
proof -
  have a: "request_code (request ''print(1)'' False) \<noteq> []"
    "\<not> request_auto_push (request ''print(1)'' False)"
    by (simp_all add: request_code_def request_auto_push_def request_def)
  have b: "mkdir_docs env_ok = None \<and> write_code_file env_ok = Written \<and>
      run_code env_ok = Inr (printed (''a < b && c > d'' @ NL)) \<and>
      write_index env_ok = Written \<and> write_readme env_ok = Written"
    by (simp add: env_ok_def)
  show ?thesis
    using a b manual_mode_runs_no_git[OF a, of empty_world env_ok "printed (''a < b && c > d'' @ NL)"]
    by simp
qed

text \<open>
  The claim as it was stated has the request go through the repository check, the
  staging and the commit. The branch \<open>else\<close> of line 323 returns before any of them:
  none is attempted.
\<close>

theorem manual_mode_counterexample:
  "request_code (request ''print(1)'' False) \<noteq> [] \<and>
   \<not> request_auto_push (request ''print(1)'' False) \<and>
   Run rev_parse_cmd \<notin> set (new_events empty_world
       (snd (deploy_to_github (request ''print(1)'' False) env_ok empty_world))) \<and>
   Run add_cmd \<notin> set (new_events empty_world
       (snd (deploy_to_github (request ''print(1)'' False) env_ok empty_world))) \<and>
   Run commit_cmd \<notin> set (new_events empty_world
       (snd (deploy_to_github (request ''print(1)'' False) env_ok empty_world)))"
  by (simp add: eval_stages eval_prims eval_envs cmds)

section \<open>Failures while materializing the site\<close>

lemmas materialize_steps = pipeline_def materialize_def write_entry_point_def eval_prims
  handle_def deploy_to_github_def new_events_def

text \<open>
  C3 (as amended). During materialization every failure aborts the request, that of a
  write as that of the directory: the response has status \<open>error\<close>, the failure is the
  last entry of the log, and the operation that failed is the last one attempted, so the
  remaining writes are not attempted, nor any git step.
\<close>

theorem write_failure_aborts:
  assumes "request_code data \<noteq> []"
  shows
   "(mkdir_docs env = Some m \<longrightarrow>
       fst (deploy_to_github data env w) =
         \<lparr>status = ''error'', message = ''Deployment failed: '' @ m,
          log = Some [CROSS @ '' Error: '' @ m],
          instructions = None, error = None\<rparr> \<and>
       new_events w (snd (deploy_to_github data env w)) = [Mkdir GITHUB_PAGES_DIR]) \<and>
    (mkdir_docs env = None \<and> failure (write_code_file env) = Some m \<longrightarrow>
       fst (deploy_to_github data env w) =
         \<lparr>status = ''error'', message = ''Deployment failed: '' @ m,
          log = Some [CHECK @ '' Created /docs directory'', CROSS @ '' Error: '' @ m],
          instructions = None, error = None\<rparr> \<and>
       new_events w (snd (deploy_to_github data env w)) =
         [Mkdir GITHUB_PAGES_DIR, WriteFile code_file (request_code data)]) \<and>
    (mkdir_docs env = None \<and> write_code_file env = Written \<and> run_code env = Inr result \<and>
     failure (write_index env) = Some m \<longrightarrow>
       status (fst (deploy_to_github data env w)) = ''error'' \<and>
       log (fst (deploy_to_github data env w)) =
         Some [CHECK @ '' Created /docs directory'', CHECK @ '' Saved Python code'',
               CROSS @ '' Error: '' @ m] \<and>
       new_events w (snd (deploy_to_github data env w)) =
         [Mkdir GITHUB_PAGES_DIR, WriteFile code_file (request_code data),
          Run [''python'', code_file],
          WriteFile index_file
            (if looks_like_html (if stdout result \<noteq> [] then stdout result else stderr result)
             then (if stdout result \<noteq> [] then stdout result else stderr result)
             else html_content (if stdout result \<noteq> [] then stdout result else stderr result))] \<and>
       (\<forall>c. WriteFile readme_file c
          \<notin> set (new_events w (snd (deploy_to_github data env w))))) \<and>
    (mkdir_docs env = None \<and> write_code_file env = Written \<and> run_code env = Inr result \<and>
     write_index env = Written \<and> failure (write_readme env) = Some m \<longrightarrow>
       status (fst (deploy_to_github data env w)) = ''error'' \<and>
       last (the (log (fst (deploy_to_github data env w)))) = CROSS @ '' Error: '' @ m \<and>
       new_events w (snd (deploy_to_github data env w)) =
         [Mkdir GITHUB_PAGES_DIR, WriteFile code_file (request_code data),
          Run [''python'', code_file],
          WriteFile index_file
            (if looks_like_html (if stdout result \<noteq> [] then stdout result else stderr result)
             then (if stdout result \<noteq> [] then stdout result else stderr result)
             else html_content (if stdout result \<noteq> [] then stdout result else stderr result)),
          WriteFile readme_file readme_text] \<and>
       last (new_events w (snd (deploy_to_github data env w))) =
         WriteFile readme_file readme_text)"
proof (intro conjI impI)
  assume "mkdir_docs env = Some m"
  then show "fst (deploy_to_github data env w) =
         \<lparr>status = ''error'', message = ''Deployment failed: '' @ m,
          log = Some [CROSS @ '' Error: '' @ m],
          instructions = None, error = None\<rparr>"
    and "new_events w (snd (deploy_to_github data env w)) = [Mkdir GITHUB_PAGES_DIR]"
    using assms by (simp_all add: materialize_steps Let_def)
next
  assume h: "mkdir_docs env = None \<and> failure (write_code_file env) = Some m"
  then show "fst (deploy_to_github data env w) =
         \<lparr>status = ''error'', message = ''Deployment failed: '' @ m,
          log = Some [CHECK @ '' Created /docs directory'', CROSS @ '' Error: '' @ m],
          instructions = None, error = None\<rparr>"
    using assms by (cases "write_code_file env") (simp_all add: materialize_steps Let_def)
  from h show "new_events w (snd (deploy_to_github data env w)) =
         [Mkdir GITHUB_PAGES_DIR, WriteFile code_file (request_code data)]"
    using assms by (cases "write_code_file env") (simp_all add: materialize_steps Let_def)
next
  assume h: "mkdir_docs env = None \<and> write_code_file env = Written \<and> run_code env = Inr result \<and>
     failure (write_index env) = Some m"
  then show "status (fst (deploy_to_github data env w)) = ''error''"
    using assms by (cases "write_index env") (simp_all add: materialize_steps Let_def)
  from h show "log (fst (deploy_to_github data env w)) =
         Some [CHECK @ '' Created /docs directory'', CHECK @ '' Saved Python code'',
               CROSS @ '' Error: '' @ m]"
    using assms by (cases "write_index env") (simp_all add: materialize_steps Let_def)
  from h show ev: "new_events w (snd (deploy_to_github data env w)) =
         [Mkdir GITHUB_PAGES_DIR, WriteFile code_file (request_code data),
          Run [''python'', code_file],
          WriteFile index_file
            (if looks_like_html (if stdout result \<noteq> [] then stdout result else stderr result)
             then (if stdout result \<noteq> [] then stdout result else stderr result)
             else html_content (if stdout result \<noteq> [] then stdout result else stderr result))]"
    using assms by (cases "write_index env") (simp_all add: materialize_steps Let_def)
  show "\<forall>c. WriteFile readme_file c
          \<notin> set (new_events w (snd (deploy_to_github data env w)))"
    unfolding ev
    by (simp add: readme_file_def index_file_def code_file_def GITHUB_PAGES_DIR_def)
next
  assume h: "mkdir_docs env = None \<and> write_code_file env = Written \<and> run_code env = Inr result \<and>
     write_index env = Written \<and> failure (write_readme env) = Some m"
  then show "status (fst (deploy_to_github data env w)) = ''error''"
    using assms by (cases "write_readme env") (simp_all add: materialize_steps Let_def)
  from h show "last (the (log (fst (deploy_to_github data env w)))) = CROSS @ '' Error: '' @ m"
    using assms by (cases "write_readme env") (simp_all add: materialize_steps Let_def)
  from h show ev: "new_events w (snd (deploy_to_github data env w)) =
         [Mkdir GITHUB_PAGES_DIR, WriteFile code_file (request_code data),
          Run [''python'', code_file],
          WriteFile index_file
            (if looks_like_html (if stdout result \<noteq> [] then stdout result else stderr result)
             then (if stdout result \<noteq> [] then stdout result else stderr result)
             else html_content (if stdout result \<noteq> [] then stdout result else stderr result)),
          WriteFile readme_file readme_text]"
    using assms by (cases "write_readme env") (simp_all add: materialize_steps Let_def)
  show "last (new_events w (snd (deploy_to_github data env w))) =
         WriteFile readme_file readme_text"
    unfolding ev by simp
qed

text \<open>One request for each of the four operations failing.\<close>

theorem write_failure_aborts_witness:
  "request_code (request ''print(1)'' True) \<noteq> [] \<and>
   mkdir_docs env_no_dir = Some ''[Errno 13] Permission denied'' \<and>
   new_events empty_world
     (snd (deploy_to_github (request ''print(1)'' True) env_no_dir empty_world)) =
     [Mkdir GITHUB_PAGES_DIR] \<and>
   mkdir_docs env_disk_full = None \<and>
   failure (write_code_file env_disk_full) = Some ''[Errno 28] No space left on device'' \<and>
   new_events empty_world
     (snd (deploy_to_github (request ''print(1)'' True) env_disk_full empty_world)) =
     [Mkdir GITHUB_PAGES_DIR, WriteFile code_file ''print(1)''] \<and>
   status (fst (deploy_to_github (request ''print(1)'' True) env_disk_full empty_world)) = ''error'' \<and>
   failure (write_index env_index_fails) = Some ''[Errno 28] No space left on device'' \<and>
   status (fst (deploy_to_github (request ''print(1)'' True) env_index_fails empty_world)) = ''error'' \<and>
   WriteFile readme_file readme_text \<notin> set (new_events empty_world
      (snd (deploy_to_github (request ''print(1)'' True) env_index_fails empty_world))) \<and>
   failure (write_readme env_readme_fails) = Some ''[Errno 28] No space left on device'' \<and>
   status (fst (deploy_to_github (request ''print(1)'' True) env_readme_fails empty_world)) = ''error'' \<and>
   last (new_events empty_world
      (snd (deploy_to_github (request ''print(1)'' True) env_readme_fails empty_world))) =
     WriteFile readme_file readme_text"
proof -
  have a: "request_code (request ''print(1)'' True) \<noteq> []"
    by (simp add: request_code_def request_def)
  have c: "mkdir_docs env_no_dir = Some ''[Errno 13] Permission denied''"
    "mkdir_docs env_disk_full = None \<and>
     failure (write_code_file env_disk_full) = Some ''[Errno 28] No space left on device''"
    "mkdir_docs env_index_fails = None \<and> write_code_file env_index_fails = Written \<and>
     run_code env_index_fails = Inr (printed (''a < b && c > d'' @ NL)) \<and>
     failure (write_index env_index_fails) = Some ''[Errno 28] No space left on device''"
    "mkdir_docs env_readme_fails = None \<and> write_code_file env_readme_fails = Written \<and>
     run_code env_readme_fails = Inr (printed (''a < b && c > d'' @ NL)) \<and>
     write_index env_readme_fails = Written \<and>
     failure (write_readme env_readme_fails) = Some ''[Errno 28] No space left on device''"
    by (simp_all add: env_no_dir_def env_disk_full_def env_index_fails_def
        env_readme_fails_def env_ok_def)
  have 1: "new_events empty_world
     (snd (deploy_to_github (request ''print(1)'' True) env_no_dir empty_world)) =
     [Mkdir GITHUB_PAGES_DIR]"
    using c(1) write_failure_aborts[OF a, where m = "''[Errno 13] Permission denied''"
        and env = env_no_dir and w = empty_world]
    by simp
  have 2: "new_events empty_world
     (snd (deploy_to_github (request ''print(1)'' True) env_disk_full empty_world)) =
     [Mkdir GITHUB_PAGES_DIR, WriteFile code_file ''print(1)'']"
    "status (fst (deploy_to_github (request ''print(1)'' True) env_disk_full empty_world)) = ''error''"
    using c(2) write_failure_aborts[OF a, where m = "''[Errno 28] No space left on device''"
        and env = env_disk_full and w = empty_world]
    by (simp_all add: request_code_def request_def)
  have 3: "status (fst (deploy_to_github (request ''print(1)'' True) env_index_fails empty_world)) = ''error''"
    "WriteFile readme_file readme_text \<notin> set (new_events empty_world
      (snd (deploy_to_github (request ''print(1)'' True) env_index_fails empty_world)))"
    using c(3) write_failure_aborts[OF a, where m = "''[Errno 28] No space left on device''"
        and env = env_index_fails
        and result = "printed (''a < b && c > d'' @ NL)" and w = empty_world]
    by blast+
  have 4: "status (fst (deploy_to_github (request ''print(1)'' True) env_readme_fails empty_world)) = ''error''"
    "last (new_events empty_world
      (snd (deploy_to_github (request ''print(1)'' True) env_readme_fails empty_world))) =
     WriteFile readme_file readme_text"
    using c(4) write_failure_aborts[OF a, where m = "''[Errno 28] No space left on device''"
        and env = env_readme_fails
        and result = "printed (''a < b && c > d'' @ NL)" and w = empty_world]
    by blast+
  show ?thesis using a c 1 2 3 4 by simp
qed

text \<open>
  The claim as it was stated has the remaining writes attempted after a write fails.
  With the directory created and the source file refused, neither the entry point nor
  the manifest is written: the exception leaves the \<open>try\<close> of line 128.
\<close>

theorem write_failure_counterexample:
  "mkdir_docs env_disk_full = None \<and>
   write_code_file env_disk_full = WriteFailed ''[Errno 28] No space left on device'' 0 \<and>
   write_index env_disk_full = Written \<and> write_readme env_disk_full = Written \<and>
   status (fst (deploy_to_github (request ''print(1)'' True) env_disk_full empty_world)) = ''error'' \<and>
   new_events empty_world
     (snd (deploy_to_github (request ''print(1)'' True) env_disk_full empty_world)) =
     [Mkdir GITHUB_PAGES_DIR, WriteFile code_file ''print(1)''] \<and>
   WriteFile readme_file readme_text \<notin> set (new_events empty_world
      (snd (deploy_to_github (request ''print(1)'' True) env_disk_full empty_world)))"
  by (simp add: eval_stages eval_prims eval_envs env_disk_full_def index_file_def readme_file_def
      code_file_def GITHUB_PAGES_DIR_def)

section \<open>A repository without a remote\<close>

text \<open>
  C6 (as amended). In a request with non-empty code and \<open>auto_push\<close> true whose site is
  materialized, when the working directory is not a repository (the query for the git
  directory answers a non-zero exit status), \<open>git init\<close> succeeds and the query for the
  remote \<open>origin\<close> answers a non-zero exit status, the result has status \<open>partial\<close>, its
  instructions contain the literal \<open>add origin\<close>, and the request ends with that query:
  no staging, no commit and no push is attempted.
\<close>

theorem missing_remote_is_partial:
  assumes "request_code data \<noteq> []" and "request_auto_push data"
    and "mkdir_docs env = None" and "write_code_file env = Written"
    and "run_code env = Inr result"
    and "write_index env = Written" and "write_readme env = Written"
    and "git_rev_parse env = Inr g" and "returncode g \<noteq> 0"
    and "git_init env = Inr i" and "returncode i = 0"
    and "git_remote_check env = Inr r" and "returncode r \<noteq> 0"
  shows "status (fst (deploy_to_github data env w)) = ''partial'' \<and>
         instructions (fst (deploy_to_github data env w)) = Some remote_missing_instructions \<and>
         py_in ''add origin'' remote_missing_instructions \<and>
         new_events w (snd (deploy_to_github data env w)) =
           [Mkdir GITHUB_PAGES_DIR,
            WriteFile code_file (request_code data),
            Run [''python'', code_file],
            WriteFile index_file
              (if looks_like_html (if stdout result \<noteq> [] then stdout result else stderr result)
               then (if stdout result \<noteq> [] then stdout result else stderr result)
               else html_content (if stdout result \<noteq> [] then stdout result else stderr result)),
            WriteFile readme_file readme_text,
            Run rev_parse_cmd, Run init_cmd, Run get_url_cmd] \<and>
         Run add_cmd \<notin> set (new_events w (snd (deploy_to_github data env w))) \<and>
         Run commit_cmd \<notin> set (new_events w (snd (deploy_to_github data env w))) \<and>
         Run push_cmd \<notin> set (new_events w (snd (deploy_to_github data env w)))"
proof -
  have ins: "py_in ''add origin'' remote_missing_instructions"
    by (simp add: remote_missing_instructions_def NL_def WARN_def)
  have st: "status (fst (deploy_to_github data env w)) = ''partial''"
    "instructions (fst (deploy_to_github data env w)) = Some remote_missing_instructions"
    using assms
    by (simp_all add: deploy_to_github_def pipeline_def materialize_def write_entry_point_def
        git_deploy_def check_repo_def handle_def eval_prims Let_def)
  have ev: "new_events w (snd (deploy_to_github data env w)) =
           [Mkdir GITHUB_PAGES_DIR,
            WriteFile code_file (request_code data),
            Run [''python'', code_file],
            WriteFile index_file
              (if looks_like_html (if stdout result \<noteq> [] then stdout result else stderr result)
               then (if stdout result \<noteq> [] then stdout result else stderr result)
               else html_content (if stdout result \<noteq> [] then stdout result else stderr result)),
            WriteFile readme_file readme_text,
            Run rev_parse_cmd, Run init_cmd, Run get_url_cmd]"
    using assms
    by (simp add: deploy_to_github_def pipeline_def materialize_def write_entry_point_def
        git_deploy_def check_repo_def handle_def eval_prims new_events_def Let_def)
  show ?thesis
    unfolding ev using st ins by (simp add: cmds)
qed

text \<open>A request in a directory that is no repository and gets no remote.\<close>

theorem missing_remote_is_partial_witness:
  "request_code (request ''print(1)'' True) \<noteq> [] \<and>
   request_auto_push (request ''print(1)'' True) \<and>
   returncode \<lparr>returncode = 128, stdout = [], stderr = ''fatal: not a git repository''\<rparr> \<noteq> 0 \<and>
   returncode \<lparr>returncode = 2, stdout = [], stderr = ''error: No such remote origin''\<rparr> \<noteq> 0 \<and>
   status (fst (deploy_to_github (request ''print(1)'' True) env_no_repo empty_world)) = ''partial'' \<and>
   Run init_cmd \<in> set (new_events empty_world
       (snd (deploy_to_github (request ''print(1)'' True) env_no_repo empty_world))) \<and>
   Run add_cmd \<notin> set (new_events empty_world
       (snd (deploy_to_github (request ''print(1)'' True) env_no_repo empty_world)))"
proof -
  have a: "request_code (request ''print(1)'' True) \<noteq> []"
    "request_auto_push (request ''print(1)'' True)"
    by (simp_all add: request_code_def request_auto_push_def request_def)
  have b: "mkdir_docs env_no_repo = None" "write_code_file env_no_repo = Written"
    "run_code env_no_repo = Inr (printed (''a < b && c > d'' @ NL))"
    "write_index env_no_repo = Written" "write_readme env_no_repo = Written"
    by (simp_all add: env_no_repo_def env_ok_def)
  have c: "git_rev_parse env_no_repo =
      Inr \<lparr>returncode = 128, stdout = [], stderr = ''fatal: not a git repository''\<rparr>"
    "returncode \<lparr>returncode = 128, stdout = [], stderr = ''fatal: not a git repository''\<rparr> \<noteq> 0"
    "git_init env_no_repo = Inr ok" "returncode ok = 0"
    "git_remote_check env_no_repo =
      Inr \<lparr>returncode = 2, stdout = [], stderr = ''error: No such remote origin''\<rparr>"
    "returncode \<lparr>returncode = 2, stdout = [], stderr = ''error: No such remote origin''\<rparr> \<noteq> 0"
    by (simp_all add: env_no_repo_def env_ok_def ok_def)
  from missing_remote_is_partial[OF a b c, of empty_world]
  show ?thesis using a c(2,6) by (simp add: cmds)
qed

text \<open>
  The claim as it was stated covers every attempt in such a directory. With
  \<open>auto_push\<close> false the same directory is never looked at: the request returns status
  \<open>success\<close> from the branch \<open>else\<close> of line 323, and \<open>git init\<close> is not attempted.
\<close>

theorem missing_remote_counterexample:
  "git_rev_parse env_no_repo =
     Inr \<lparr>returncode = 128, stdout = [], stderr = ''fatal: not a git repository''\<rparr> \<and>
   git_remote_check env_no_repo =
     Inr \<lparr>returncode = 2, stdout = [], stderr = ''error: No such remote origin''\<rparr> \<and>
   status (fst (deploy_to_github (request ''print(1)'' False) env_no_repo empty_world)) =
     ''success'' \<and>
   status (fst (deploy_to_github (request ''print(1)'' False) env_no_repo empty_world)) \<noteq>
     ''partial'' \<and>
   Run init_cmd \<notin> set (new_events empty_world
       (snd (deploy_to_github (request ''print(1)'' False) env_no_repo empty_world)))"
  by (simp add: eval_stages eval_prims eval_envs env_no_repo_def cmds)

section \<open>The output of Execute\<close>

lemma execute_output_prefix:
  "length (filter (prefix_of (execute_output r)) execute_prefixes) = 1"
proof (cases r)
  case (Inr result)
  then show ?thesis
    by (simp add: execute_output_def execute_prefixes_def claimed_prefixes_def prefix_of_def)
next
  case (Inl e)
  then show ?thesis
    by (cases e)
       (simp_all add: execute_output_def execute_prefixes_def claimed_prefixes_def prefix_of_def)
qed

text \<open>
  C4 (as amended). For every non-empty code the string Execute returns starts with
  exactly one of six fixed texts: \<open>Error saving file:\<close> when the source could not be
  saved, and otherwise one of the five the specification lists.
\<close>

theorem execute_prefix:
  assumes "request_code data \<noteq> []"
  shows "length (filter (prefix_of (fst (deploy_code data env w))) execute_prefixes) = 1"
proof (cases "save_generated env")
  case Written
  then have "fst (deploy_code data env w) =
      execute_output (fst (subprocess_run_checked (cpe_text env) [''python'', GENERATED_FILE]
        (generated_effect env) (run_generated env)
        (w\<lparr>trace := trace w @ [WriteFile GENERATED_FILE (request_code data)],
           files := (files w)(GENERATED_FILE \<mapsto> request_code data)\<rparr>)))"
    using assms by (simp add: deploy_code_def write_file_def Let_def split: prod.split)
  then show ?thesis by (simp only: execute_output_prefix)
next
  case (OpenFailed m)
  then show ?thesis using assms
    by (simp add: deploy_code_def write_file_def execute_prefixes_def claimed_prefixes_def
        prefix_of_def Let_def)
next
  case (WriteFailed m n)
  then show ?thesis using assms
    by (simp add: deploy_code_def write_file_def execute_prefixes_def claimed_prefixes_def
        prefix_of_def Let_def)
qed

text \<open>The scenario of the specification: the code prints \<open>hi\<close>.\<close>

theorem execute_prefix_witness:
  "request_code (request ''print('hi')'' True) \<noteq> [] \<and>
   fst (deploy_code (request ''print('hi')'' True) env_ok empty_world) =
     ''Execution Successful:'' @ NL @ NL @ ''hi'' @ NL \<and>
   length (filter (prefix_of (fst (deploy_code (request ''print('hi')'' True) env_ok empty_world)))
     execute_prefixes) = 1"
proof -
  have a: "request_code (request ''print('hi')'' True) \<noteq> []"
    by (simp add: request_code_def request_def)
  have b: "fst (deploy_code (request ''print('hi')'' True) env_ok empty_world) =
     ''Execution Successful:'' @ NL @ NL @ ''hi'' @ NL"
    by (simp add: deploy_code_def write_file_def subprocess_run_checked_def execute_output_def
        eval_envs request_code_def Let_def)
  show ?thesis using a b execute_prefix[OF a, of env_ok empty_world] by simp
qed

text \<open>
  The claim as it was stated lists five texts. Where the source cannot be saved, line 87
  returns \<open>Error saving file:\<close> and the exception's text, which starts with none of
  them.
\<close>

theorem execute_prefix_counterexample:
  "request_code (request ''print('hi')'' True) \<noteq> [] \<and>
   fst (deploy_code (request ''print('hi')'' True) env_read_only empty_world) =
     ''Error saving file: [Errno 30] Read-only file system'' \<and>
   filter (prefix_of (fst (deploy_code (request ''print('hi')'' True) env_read_only empty_world)))
     claimed_prefixes = []"
  by (simp add: deploy_code_def write_file_def eval_envs env_read_only_def request_code_def
      claimed_prefixes_def prefix_of_def Let_def)

section \<open>Where Execute writes\<close>

text \<open>
  C9 (as amended). Every Execute invocation with non-empty code writes the source text
  to the one fixed path \<open>generated_code.py\<close> and then, only when the write succeeded,
  runs it. These are all its operations: it removes nothing, and after a successful
  write the files are the ones the invocation found, with the source text at that path,
  as the executed code leaves them.
\<close>

theorem execute_writes_fixed_path:
  assumes "request_code data \<noteq> []"
  shows "new_events w (snd (deploy_code data env w)) =
           (if save_generated env = Written
            then [WriteFile GENERATED_FILE (request_code data), Run [''python'', GENERATED_FILE]]
            else [WriteFile GENERATED_FILE (request_code data)]) \<and>
         (save_generated env = Written \<longrightarrow>
            files (snd (deploy_code data env w)) =
              generated_effect env ((files w)(GENERATED_FILE \<mapsto> request_code data)))"
proof (cases "save_generated env")
  case Written
  then show ?thesis using assms
    by (cases "run_generated env")
       (simp_all add: deploy_code_def write_file_def subprocess_run_checked_def new_events_def
          Let_def)
next
  case (OpenFailed m)
  then show ?thesis using assms
    by (simp add: deploy_code_def write_file_def new_events_def Let_def)
next
  case (WriteFailed m n)
  then show ?thesis using assms
    by (simp add: deploy_code_def write_file_def new_events_def Let_def)
qed

text \<open>
  One invocation whose code leaves the files alone, and one whose code removes its own
  source file.
\<close>

theorem execute_writes_fixed_path_witness:
  "request_code (request ''print(1)'' True) \<noteq> [] \<and>
   save_generated env_ok = Written \<and>
   new_events empty_world (snd (deploy_code (request ''print(1)'' True) env_ok empty_world)) =
     [WriteFile ''generated_code.py'' ''print(1)'', Run [''python'', ''generated_code.py'']] \<and>
   files (snd (deploy_code (request ''print(1)'' True) env_ok empty_world)) ''generated_code.py'' =
     Some ''print(1)'' \<and>
   save_generated env_self_delete = Written \<and>
   new_events empty_world
     (snd (deploy_code (request ''print(1)'' True) env_self_delete empty_world)) =
     [WriteFile ''generated_code.py'' ''print(1)'', Run [''python'', ''generated_code.py'']] \<and>
   files (snd (deploy_code (request ''print(1)'' True) env_self_delete empty_world))
     ''generated_code.py'' = None"
proof -
  have a: "request_code (request ''print(1)'' True) \<noteq> []"
    by (simp add: request_code_def request_def)
  have b: "save_generated env_ok = Written" "save_generated env_self_delete = Written"
    by (simp_all add: env_ok_def env_self_delete_def)
  have c: "generated_effect env_ok = id"
    "generated_effect env_self_delete = (\<lambda>fs. fs(GENERATED_FILE := None))"
    by (simp_all add: env_ok_def env_self_delete_def)
  show ?thesis
    using a b execute_writes_fixed_path[OF a, of empty_world env_ok]
      execute_writes_fixed_path[OF a, of empty_world env_self_delete]
    by (simp add: c GENERATED_FILE_def request_code_def request_def empty_world_def)
qed

text \<open>
  The claim as it was stated has each invocation write to a fresh location and leave
  nothing behind. Two invocations with different code that does not touch the files,
  one after the other, write to the same path, and the file is there after each:
  \<open>GENERATED_FILE\<close> is a constant, and the removal of line 111 is commented out.
\<close>

theorem execute_location_counterexample:
  "request ''print(1)'' True \<noteq> request ''print(2)'' True \<and>
   hd (new_events empty_world
         (snd (deploy_code (request ''print(1)'' True) env_ok empty_world))) =
     WriteFile ''generated_code.py'' ''print(1)'' \<and>
   hd (new_events (snd (deploy_code (request ''print(1)'' True) env_ok empty_world))
         (snd (deploy_code (request ''print(2)'' True) env_ok
                (snd (deploy_code (request ''print(1)'' True) env_ok empty_world))))) =
     WriteFile ''generated_code.py'' ''print(2)'' \<and>
   files (snd (deploy_code (request ''print(1)'' True) env_ok empty_world)) ''generated_code.py'' =
     Some ''print(1)'' \<and>
   files (snd (deploy_code (request ''print(2)'' True) env_ok
                (snd (deploy_code (request ''print(1)'' True) env_ok empty_world))))
     ''generated_code.py'' = Some ''print(2)''"
  by (simp add: deploy_code_def write_file_def subprocess_run_checked_def new_events_def
      eval_envs request_code_def Let_def GENERATED_FILE_def)

section \<open>The output classifier\<close>

lemma py_in_sublist: "py_in sub s = sublist sub s"
  by (induction s) (simp_all add: sublist_Cons_right)

lemma is_upper_letters: "is_upper c \<longleftrightarrow> c \<in> set ''ABCDEFGHIJKLMNOPQRSTUVWXYZ''"
proof
  assume "is_upper c"
  then have "(of_char c :: nat) \<in> of_char ` set ''ABCDEFGHIJKLMNOPQRSTUVWXYZ''"
    unfolding is_upper_def by simp arith
  then show "c \<in> set ''ABCDEFGHIJKLMNOPQRSTUVWXYZ''"
    by (simp only: inj_image_mem_iff[OF inj_of_char])
next
  assume "c \<in> set ''ABCDEFGHIJKLMNOPQRSTUVWXYZ''"
  then show "is_upper c"
    by (auto simp: is_upper_def)
qed

lemma lower_char_upper: "is_upper c \<Longrightarrow> char_of (of_char c + 32 :: nat) = lower_char c"
  unfolding is_upper_letters
  by (auto simp: lower_char_def char_of_eq_iff take_bit_eq_mod)

lemma lower_char_other: "\<not> is_upper c \<Longrightarrow> lower_char c = c"
  unfolding is_upper_letters
  by (simp add: lower_char_def)

lemma lower_char_same:
  assumes "\<not> is_upper d"
  shows "(lower_char c = d) = same_ignoring_case c d"
proof (cases "is_upper c")
  case True
  then have n: "(of_char c :: nat) + 32 < 256"
    by (simp add: is_upper_def)
  have "(lower_char c = d) = (char_of (of_char c + 32 :: nat) = d)"
    using lower_char_upper[OF True] by simp
  also have "\<dots> = ((of_char d :: nat) = of_char c + 32)"
    using n by (auto simp: char_of_eq_iff take_bit_eq_mod)
  also have "\<dots> = same_ignoring_case c d"
    using True assms by (auto simp: same_ignoring_case_def)
  finally show ?thesis .
next
  case False
  then show ?thesis
    using assms by (simp add: lower_char_other same_ignoring_case_def)
qed

lemma map_lower_same:
  assumes "\<forall>d \<in> set marker. \<not> is_upper d"
  shows "(map lower_char m = marker) = list_all2 same_ignoring_case m marker"
  using assms
proof (induction m arbitrary: marker)
  case Nil
  then show ?case by auto
next
  case (Cons c m)
  then show ?case
    by (cases marker) (simp_all add: lower_char_same)
qed

lemma py_in_lower:
  assumes "\<forall>d \<in> set marker. \<not> is_upper d"
  shows "py_in marker (py_lower text) = occurs_ignoring_case marker text"
proof
  assume "py_in marker (py_lower text)"
  then obtain pre post where "map lower_char text = pre @ marker @ post"
    unfolding py_in_sublist sublist_def py_lower_def by blast
  then have "map lower_char (take (length marker) (drop (length pre) text)) = marker"
    by (simp add: take_map[symmetric] drop_map[symmetric])
  then have "list_all2 same_ignoring_case (take (length marker) (drop (length pre) text)) marker"
    by (simp only: map_lower_same[OF assms])
  moreover have "text = take (length pre) text @ take (length marker) (drop (length pre) text)
      @ drop (length marker) (drop (length pre) text)"
    by (metis append_take_drop_id)
  ultimately show "occurs_ignoring_case marker text"
    unfolding occurs_ignoring_case_def by blast
next
  assume "occurs_ignoring_case marker text"
  then obtain a b c where t: "text = a @ b @ c" and "list_all2 same_ignoring_case b marker"
    unfolding occurs_ignoring_case_def by blast
  then have "map lower_char b = marker"
    by (simp only: map_lower_same[OF assms])
  with t have "map lower_char text = map lower_char a @ marker @ map lower_char c"
    by simp
  then show "py_in marker (py_lower text)"
    unfolding py_in_sublist sublist_def py_lower_def by blast
qed

text \<open>
  C7. The classifier is a function of the captured text alone, defined on every text.
  It selects the verbatim branch exactly when the text contains \<open><html\<close> or
  \<open><!doctype\<close> somewhere, in any mix of capital and small letters; the entry point
  then receives the text itself, and otherwise the text between the head and the tail
  of the fixed wrapper, whose \<open>pre\<close> element it fills. Being a function, it gives the
  same branch each time it is asked about the same text.
\<close>

theorem classifier_follows_markers:
  "looks_like_html text = spec_is_document text \<and>
   (write_index env = Written \<longrightarrow>
      write_entry_point text env s =
        (Inr (),
         s\<lparr>trace := trace s @
               [WriteFile index_file
                  (if spec_is_document text then text else html_head @ text @ html_tail)],
           files := (files s)
               (index_file \<mapsto>
                  (if spec_is_document text then text else html_head @ text @ html_tail)),
           deployment_log := deployment_log s @
               [if spec_is_document text then CHECK @ '' Generated HTML page''
                else CHECK @ '' Created HTML wrapper'']\<rparr>)) \<and>
   suffix ''<pre class=\"whitespace-pre-wrap font-mono text-green-400\">'' html_head \<and>
   prefix ''</pre>'' html_tail"
proof -
  have m: "\<forall>d \<in> set ''<html''. \<not> is_upper d" "\<forall>d \<in> set ''<!doctype''. \<not> is_upper d"
    by (simp_all add: is_upper_def)
  have eq: "looks_like_html text = spec_is_document text"
    by (simp add: looks_like_html_def spec_is_document_def py_in_lower[OF m(1)]
        py_in_lower[OF m(2)])
  have w: "write_index env = Written \<longrightarrow>
      write_entry_point text env s =
        (Inr (),
         s\<lparr>trace := trace s @
               [WriteFile index_file
                  (if spec_is_document text then text else html_head @ text @ html_tail)],
           files := (files s)
               (index_file \<mapsto>
                  (if spec_is_document text then text else html_head @ text @ html_tail)),
           deployment_log := deployment_log s @
               [if spec_is_document text then CHECK @ '' Generated HTML page''
                else CHECK @ '' Created HTML wrapper'']\<rparr>)"
    unfolding eq[symmetric]
    by (simp add: write_entry_point_def seq_def write_file_def log_append_def html_content_def)
  have 2: "suffix ''<pre class=\"whitespace-pre-wrap font-mono text-green-400\">'' html_head"
    by (simp add: html_head_def NL_def suffix_to_prefix)
  have 3: "prefix ''</pre>'' html_tail"
    by (simp add: html_tail_def)
  show ?thesis using eq w 2 3 by blast
qed

text \<open>A document in mixed case, and a plain text.\<close>

theorem classifier_follows_markers_witness:
  "write_index env_ok = Written \<and>
   spec_is_document ''<!DocType HTML><HTML><body>ok</body></HTML>'' \<and>
   files (snd (write_entry_point ''<!DocType HTML><HTML><body>ok</body></HTML>'' env_ok
                 \<lparr>trace = [], files = Map.empty, deployment_log = []\<rparr>)) index_file =
     Some ''<!DocType HTML><HTML><body>ok</body></HTML>'' \<and>
   \<not> spec_is_document ''hi'' \<and>
   files (snd (write_entry_point ''hi'' env_ok
                 \<lparr>trace = [], files = Map.empty, deployment_log = []\<rparr>)) index_file =
     Some (html_head @ ''hi'' @ html_tail)"
proof -
  have a: "write_index env_ok = Written"
    by (simp add: env_ok_def)
  have b: "looks_like_html ''<!DocType HTML><HTML><body>ok</body></HTML>''"
    "\<not> looks_like_html ''hi''"
    by (simp_all add: looks_like_html_def py_lower_def lower_char_def)
  show ?thesis
    using a b
      classifier_follows_markers[of "''<!DocType HTML><HTML><body>ok</body></HTML>''" env_ok
        "\<lparr>trace = [], files = Map.empty, deployment_log = []\<rparr>"]
      classifier_follows_markers[of "''hi''" env_ok
        "\<lparr>trace = [], files = Map.empty, deployment_log = []\<rparr>"]
    by simp
qed

section \<open>The address of the published page\<close>

text \<open>
  C8 fails on the code. Line 293 removes every occurrence of \<open>.git\<close> from the remote
  URL, not only a trailing one, so a repository whose name contains \<open>.git\<close> gets a
  wrong address: for \<open>https://github.com/alice/alice.github.io.git\<close> the log
  announces \<open>https://alice.github.io/alicehub.io/\<close>.
\<close>

theorem pages_url_at_failing_input:
  "py_in ''github.com'' ''https://github.com/alice/alice.github.io.git'' \<and>
   pages_url ''https://github.com/alice/alice.github.io.git'' =
     Some ''https://alice.github.io/alicehub.io/'' \<and>
   pages_url ''https://github.com/alice/alice.github.io.git'' \<noteq>
     Some ''https://alice.github.io/alice.github.io/'' \<and>
   status (fst (deploy_to_github (request ''print(1)'' True) env_pages_repo empty_world)) =
     ''success'' \<and>
   site_entry ''https://alice.github.io/alicehub.io/''
     \<in> set (the (log (fst (deploy_to_github (request ''print(1)'' True) env_pages_repo empty_world))))"
proof -
  have r: "py_replace ''.git'' [] ''https://github.com/alice/alice.github.io.git'' =
      ''https://github.com/alice/alicehub.io''"
    by (simp add: py_replace.simps)
  have p: "pages_url ''https://github.com/alice/alice.github.io.git'' =
     Some ''https://alice.github.io/alicehub.io/''"
    by (simp add: pages_url_def r Let_def)
  have s: "py_strip (''https://github.com/alice/alice.github.io.git'' @ NL) =
     ''https://github.com/alice/alice.github.io.git''"
    by (simp add: py_strip_def space_units_def strip_units.simps NL_def)
  show ?thesis
    unfolding p
    by (simp add: eval_stages eval_prims env_pages_repo_def env_ok_def empty_world_def
        request_def printed_def ok_def s[unfolded NL_def, simplified] p cmds site_entry_def
        NL_def GLOBE_def CHECK_def WARN_def PARTY_def CYCLE_def)
qed

section \<open>The wrapper document\<close>

lemma untouched_ret: "untouched p (ret x)"
  by (simp add: untouched_def ret_def)

lemma untouched_log_append: "untouched p (log_append e)"
  by (simp add: untouched_def log_append_def)

lemma untouched_get_log: "untouched p get_log"
  by (simp add: untouched_def get_log_def)

lemma untouched_run: "untouched p (subprocess_run args id ans)"
  by (simp add: untouched_def subprocess_run_def)

lemma untouched_run_checked: "untouched p (subprocess_run_checked t args id ans)"
  by (simp add: untouched_def subprocess_run_checked_def split: sum.split)

lemma untouched_seq:
  assumes "untouched p m" and "\<And>x. untouched p (f x)"
  shows "untouched p (seq m f)"
proof (unfold untouched_def, intro allI)
  fix s
  obtain r s1 where ms: "m s = (r, s1)" by (cases "m s")
  with assms(1) have 1: "files s1 p = files s p"
    unfolding untouched_def by (metis snd_conv)
  show "files (snd (seq m f s)) p = files s p"
  proof (cases r)
    case (Inl e)
    then show ?thesis using ms 1 by (simp add: seq_def)
  next
    case (Inr x)
    with assms(2)[of x] have "files (snd (f x s1)) p = files s1 p"
      unfolding untouched_def by blast
    then show ?thesis using ms 1 Inr by (simp add: seq_def)
  qed
qed

lemmas untouched_rules = untouched_seq untouched_ret untouched_log_append untouched_get_log
  untouched_run untouched_run_checked

lemma untouched_git_deploy: "untouched p (git_deploy env)"
  unfolding git_deploy_def check_repo_def push_report_def push_tips_def report_pages_url_def
  by (auto intro!: untouched_rules split: option.split)

lemma untouched_manual_mode: "untouched p manual_mode"
  unfolding manual_mode_def by (intro untouched_rules)

lemma files_handle: "files (snd (handle r)) = files (snd r)"
proof (cases r)
  case (Pair a s)
  show ?thesis
  proof (cases a)
    case (Inl e)
    then show ?thesis using Pair by (cases e) (simp_all add: handle_def)
  next
    case (Inr resp)
    then show ?thesis using Pair by (simp add: handle_def)
  qed
qed

lemma files_seq_untouched:
  assumes "m s = (r, s')" and "\<And>x. untouched p (f x)"
  shows "files (snd (seq m f s)) p = files s' p"
proof (cases r)
  case (Inl e)
  then show ?thesis using assms(1) by (simp add: seq_def)
next
  case (Inr x)
  then show ?thesis using assms(1) assms(2)[of x] by (simp add: seq_def untouched_def)
qed

lemma materialize_wrapper:
  assumes "mkdir_docs env = None" and "write_code_file env = Written"
    and "run_code env = Inr result" and "write_index env = Written"
    and "\<not> looks_like_html (if stdout result \<noteq> [] then stdout result else stderr result)"
  shows "files (snd (materialize code env s)) index_file =
           Some (html_head @ (if stdout result \<noteq> [] then stdout result else stderr result)
                   @ html_tail)"
  using assms
  by (cases "write_readme env")
     (simp_all add: materialize_def write_entry_point_def eval_prims html_content_def
        index_file_def readme_file_def)

text \<open>
  C10. When the captured output holds no document-start marker and the entry point is
  written, the file is the head of the template, then the output itself, character for
  character, then the tail: the output stands between the opening \<open>pre\<close> tag that
  ends the head and the closing one that starts the tail, and nothing is escaped,
  whatever characters it holds.
\<close>

theorem wrapper_is_unescaped:
  assumes "request_code data \<noteq> []"
    and "mkdir_docs env = None" and "write_code_file env = Written"
    and "run_code env = Inr result" and "write_index env = Written"
    and "\<not> looks_like_html (if stdout result \<noteq> [] then stdout result else stderr result)"
  shows "files (snd (deploy_to_github data env w)) index_file =
           Some (html_head @ (if stdout result \<noteq> [] then stdout result else stderr result)
                   @ html_tail) \<and>
         suffix ''<pre class=\"whitespace-pre-wrap font-mono text-green-400\">'' html_head \<and>
         prefix ''</pre>'' html_tail"
proof -
  define s0 where "s0 = \<lparr>trace = trace w, files = files w, deployment_log = []\<rparr>"
  obtain r s' where m: "materialize (request_code data) env s0 = (r, s')"
    by (cases "materialize (request_code data) env s0")
  have u: "untouched index_file (if request_auto_push data then git_deploy env else manual_mode)"
    by (simp add: untouched_git_deploy untouched_manual_mode)
  have "files (snd (deploy_to_github data env w)) index_file =
      files (snd (pipeline (request_code data) (request_auto_push data) env s0)) index_file"
    using assms(1) by (simp add: deploy_to_github_def files_handle s0_def)
  also have "\<dots> = files s' index_file"
    unfolding pipeline_def
    using files_seq_untouched[where m = "materialize (request_code data) env" and s = s0
        and f = "\<lambda>_. if request_auto_push data then git_deploy env else manual_mode"
        and p = index_file, OF m] u
    by simp
  also have "\<dots> = Some (html_head @ (if stdout result \<noteq> [] then stdout result else stderr result)
                   @ html_tail)"
    using materialize_wrapper[OF assms(2-6), of "request_code data" s0] m by simp
  finally have 1: "files (snd (deploy_to_github data env w)) index_file =
           Some (html_head @ (if stdout result \<noteq> [] then stdout result else stderr result)
                   @ html_tail)" .
  have 2: "suffix ''<pre class=\"whitespace-pre-wrap font-mono text-green-400\">'' html_head"
    by (simp add: html_head_def NL_def suffix_to_prefix)
  have 3: "prefix ''</pre>'' html_tail"
    by (simp add: html_tail_def)
  show ?thesis using 1 2 3 by simp
qed

text \<open>An output with \<open><\<close>, \<open>>\<close> and \<open>&\<close>.\<close>

theorem wrapper_is_unescaped_witness:
  "request_code (request ''print(1)'' True) \<noteq> [] \<and>
   run_code env_ok = Inr (printed (''a < b && c > d'' @ NL)) \<and>
   \<not> looks_like_html (''a < b && c > d'' @ NL) \<and>
   files (snd (deploy_to_github (request ''print(1)'' True) env_ok empty_world)) index_file =
     Some (html_head @ ''a < b && c > d'' @ NL @ html_tail)"
proof -
  have a: "request_code (request ''print(1)'' True) \<noteq> []"
    by (simp add: request_code_def request_def)
  have b: "mkdir_docs env_ok = None" "write_code_file env_ok = Written"
    "run_code env_ok = Inr (printed (''a < b && c > d'' @ NL))" "write_index env_ok = Written"
    by (simp_all add: env_ok_def)
  have c: "\<not> looks_like_html (''a < b && c > d'' @ NL)"
    by (simp add: looks_like_html_def py_lower_def lower_char_def NL_def)
  then have c': "\<not> looks_like_html
      (if stdout (printed (''a < b && c > d'' @ NL)) \<noteq> []
       then stdout (printed (''a < b && c > d'' @ NL))
       else stderr (printed (''a < b && c > d'' @ NL)))"
    by (simp add: printed_def NL_def)
  show ?thesis
    using a b(3) c wrapper_is_unescaped[OF a b c', of empty_world]
    by (simp add: printed_def NL_def)
qed

end
